theory Spec2Isabelle
  imports Complex_Main "HOL-Library.Log_Nat"
begin

section \<open>Conventions of the embedding\<close>

text \<open>
  The program is an Express/Mongoose backend. Each route handler is embedded as a function
  from the request parameters and the database to the new database and the response.
  \<^item> A JavaScript number is the rational that the finite double denotes (\<^typ>\<open>rat\<close>).
    The percentage arithmetic of the dashboard and the stock arithmetic of a menu item round
    each result to a double (\<open>to_double\<close> below). Millisecond timestamps are \<^typ>\<open>int\<close>
    and counts are \<^typ>\<open>nat\<close>; the minutes of a delivery are the exact quotient of the
    milliseconds by 60000, which \<^verbatim>\<open>Math.round\<close> takes to the same integer as the double
    quotient for every duration below \<open>10^11\<close> minutes.
  \<^item> Every clock reading (\<^verbatim>\<open>new Date()\<close>, \<^verbatim>\<open>Date.now()\<close>) is a parameter.
  \<^item> A handler sits in a \<^verbatim>\<open>try/catch\<close> whose \<^verbatim>\<open>catch\<close> answers 500. The awaited
    storage calls of a handler are numbered in program order from 0 and the parameter
    \<open>fail_at\<close> names the one that throws (\<open>None\<close>: none does).
  \<^item> The authentication middleware has already let the request through.
\<close>

section \<open>Double-precision arithmetic\<close>

text \<open>
  IEEE-754 binary64, round to nearest with ties to even: a nonzero result is scaled so that
  its magnitude lies in \<open>[2^52, 2^53)\<close>, rounded to an integer, and scaled back. The exponent
  range is not bounded (no overflow to Infinity, no subnormal numbers), which is what a
  double does for magnitudes between \<open>2^-1022\<close> and \<open>2^1024\<close>; NaN and the infinities are
  not values of the model.
\<close>

definition round_half_even :: "rat \<Rightarrow> int" where
  "round_half_even x =
     (let f = \<lfloor>x\<rfloor>; r = x - of_int f
      in if r < 1 / 2 then f else if r > 1 / 2 then f + 1 else if even f then f else f + 1)"

text \<open>The exponent \<open>e\<close> with \<open>2^e \<le> |x| < 2^(e+1)\<close>, for \<open>x \<noteq> 0\<close>.\<close>

definition binary_exponent :: "rat \<Rightarrow> int" where
  "binary_exponent x =
     (let e = bitlen (fst (quotient_of \<bar>x\<bar>)) - bitlen (snd (quotient_of \<bar>x\<bar>))
      in if 2 powi e \<le> \<bar>x\<bar> then e else e - 1)"

definition to_double :: "rat \<Rightarrow> rat" where
  "to_double x =
     (if x = 0 then 0
      else let e = binary_exponent x - 52
           in of_int (round_half_even (x / 2 powi e)) * 2 powi e)"

section \<open>Dashboard: percentage change (routes/dashboard.js)\<close>

text \<open>
  \<^verbatim>\<open>((current - previous) / previous) * 100\<close> is three double operations, each rounding
  its result.
\<close>

definition calculatePercentageChange :: "rat \<Rightarrow> rat \<Rightarrow> rat" where
  "calculatePercentageChange current previous =
     (if previous = 0 then (if current > 0 then 100 else 0)
      else to_double (to_double (to_double (current - previous) / previous) * 100))"

text \<open>
  \<^verbatim>\<open>parseFloat(x.toFixed(1))\<close>. Below \<open>10^21\<close>, \<^verbatim>\<open>toFixed(1)\<close> writes the integer \<open>n\<close> with
  \<open>n / 10\<close> nearest to the magnitude of \<open>x\<close> (the larger one on a tie) with one digit after
  the point, and the sign in front; \<^verbatim>\<open>parseFloat\<close> reads that decimal as the nearest double.
  From \<open>10^21\<close> on, \<^verbatim>\<open>toFixed\<close> writes the number as \<^verbatim>\<open>String\<close> does and \<^verbatim>\<open>parseFloat\<close>
  reads the same double back.
\<close>

definition toFixed1 :: "rat \<Rightarrow> rat" where
  "toFixed1 x =
     (if \<bar>x\<bar> \<ge> 10 ^ 21 then x
      else if x < 0 then - to_double (of_int \<lfloor>(- x) * 10 + 1 / 2\<rfloor> / 10)
      else to_double (of_int \<lfloor>x * 10 + 1 / 2\<rfloor> / 10))"

text \<open>
  The eight results of \<^verbatim>\<open>countDocuments\<close> that the stats handler awaits. A count is a
  JavaScript number holding a natural number, so it is below \<open>2^53\<close> and is its own double.
\<close>

record stats_counts =
  c_activeDrivers :: nat
  c_activeDriversLastWeek :: nat
  c_activeOrders :: nat
  c_activeOrdersLastWeek :: nat
  c_totalDeliveries :: nat
  c_totalDeliveriesLastWeek :: nat
  c_ongoingDeliveries :: nat
  c_ongoingDeliveriesYesterday :: nat

text \<open>The \<^verbatim>\<open>data\<close> object of the response of GET /api/dashboard/stats.\<close>

record stats_data =
  activeDrivers :: nat
  activeDriversChange :: rat
  activeOrders :: nat
  activeOrdersChange :: rat
  totalDeliveries :: nat
  totalDeliveriesChange :: rat
  ongoingDeliveries :: nat
  ongoingDeliveriesChange :: rat

definition dashboard_stats :: "stats_counts \<Rightarrow> stats_data" where
  "dashboard_stats c =
     (let activeDriversChange0 =
            calculatePercentageChange (of_nat (c_activeDrivers c)) (of_nat (c_activeDriversLastWeek c));
          activeOrdersChange0 =
            calculatePercentageChange (of_nat (c_activeOrders c)) (of_nat (c_activeOrdersLastWeek c));
          totalDeliveriesChange0 =
            calculatePercentageChange (of_nat (c_totalDeliveries c)) (of_nat (c_totalDeliveriesLastWeek c));
          ongoingDeliveriesChange0 =
            calculatePercentageChange (of_nat (c_ongoingDeliveries c))
              (of_nat (c_ongoingDeliveriesYesterday c))
      in \<lparr> activeDrivers = c_activeDrivers c,
           activeDriversChange = toFixed1 activeDriversChange0,
           activeOrders = c_activeOrders c,
           activeOrdersChange = toFixed1 activeOrdersChange0,
           totalDeliveries = c_totalDeliveries c,
           totalDeliveriesChange = toFixed1 totalDeliveriesChange0,
           ongoingDeliveries = c_ongoingDeliveries c,
           ongoingDeliveriesChange = toFixed1 ongoingDeliveriesChange0 \<rparr>)"

section \<open>Menu items: stock cascade (models/MenuItem.js)\<close>

text \<open>The fields of a MenuItem that the stock code reads or writes.\<close>

record menuItem =
  isAvailable :: bool
  trackStock :: bool
  currentStock :: rat
  lowStockThreshold :: rat
  isOutOfStock :: bool

text \<open>\<^verbatim>\<open>menuItemSchema.pre('save')\<close>.\<close>

definition menuItem_pre_save :: "menuItem \<Rightarrow> menuItem" where
  "menuItem_pre_save m =
     (if trackStock m then
        (if currentStock m = 0 then m\<lparr>isOutOfStock := True, isAvailable := False\<rparr>
         else m\<lparr>isOutOfStock := False\<rparr>)
      else m)"

text \<open>
  \<^verbatim>\<open>document.save()\<close> of a MenuItem: Mongoose first runs the schema validators
  (\<^verbatim>\<open>currentStock\<close> and \<^verbatim>\<open>lowStockThreshold\<close> have \<^verbatim>\<open>min: 0\<close>), then the pre-save hook,
  then writes the document; a failed validation or write rejects and stores nothing.
  \<open>InvalidElsewhere\<close>: a validator of a field outside the record fails.
  \<open>WriteFails\<close>: the write throws.
\<close>

datatype save_fault = NoFault | InvalidElsewhere | WriteFails

datatype save_error = ValidationError | WriteError

definition menuItem_save :: "save_fault \<Rightarrow> menuItem \<Rightarrow> save_error + menuItem" where
  "menuItem_save fault m =
     (if fault = InvalidElsewhere \<or> currentStock m < 0 \<or> lowStockThreshold m < 0
      then Inl ValidationError
      else
        let m1 = menuItem_pre_save m
        in if fault = WriteFails then Inl WriteError else Inr m1)"

text \<open>
  \<^verbatim>\<open>menuItemSchema.methods.updateStock(quantity, operation)\<close>; the result is what
  \<^verbatim>\<open>this.save()\<close> stores, or its error. Without stock tracking the document is returned and
  nothing is saved.
\<close>

definition updateStock ::
  "save_fault \<Rightarrow> menuItem \<Rightarrow> rat \<Rightarrow> string \<Rightarrow> save_error + menuItem" where
  "updateStock fault m quantity operation =
     (if \<not> trackStock m then Inr m
      else
        let m1 = (if operation = ''subtract''
                  then m\<lparr>currentStock := max 0 (to_double (currentStock m - quantity))\<rparr>
                  else if operation = ''add''
                  then m\<lparr>currentStock := to_double (currentStock m + quantity)\<rparr>
                  else if operation = ''set'' then m\<lparr>currentStock := max 0 quantity\<rparr>
                  else m);
            m2 = m1\<lparr>isOutOfStock := (currentStock m1 = 0)\<rparr>;
            m3 = (if isOutOfStock m2 then m2\<lparr>isAvailable := False\<rparr> else m2)
        in menuItem_save fault m3)"

section \<open>Request values, documents and collections\<close>

text \<open>
  A value of a JSON request body. \<open>JUndefined\<close> is an absent field; \<open>JObj\<close> stands for
  any array or object (truthy, and equal to no string).
\<close>

datatype jsval = JUndefined | JNull | JBool bool | JNum rat | JStr string | JObj

fun truthy :: "jsval \<Rightarrow> bool" where
  "truthy JUndefined = False"
| "truthy JNull = False"
| "truthy (JBool b) = b"
| "truthy (JNum n) = (n \<noteq> 0)"
| "truthy (JStr s) = (s \<noteq> [])"
| "truthy JObj = True"

text \<open>
  Documents. Identifiers (\<^verbatim>\<open>_id\<close>, references) are natural numbers. Only the fields that
  the handlers below read or write are kept. The two Order schema files of the repository
  describe one \<^verbatim>\<open>orders\<close> collection: \<open>o_user\<close> and \<open>deliveryStatus\<close> are fields of the
  schema with \<^verbatim>\<open>deliveryStatus\<close>, \<open>o_customer\<close> is the reference of the other schema; a
  field that a document does not have is \<open>None\<close>. Field names carry a prefix where two
  documents share a name (\<open>o_status\<close> and \<open>d_status\<close> are both \<^verbatim>\<open>status\<close>).
\<close>

record user =
  u_id :: nat
  userType :: string

record restaurant =
  r_id :: nat
  r_image :: "string option"
  r_coverImage :: "string option"

record orderItem =
  it_menuItem :: "nat option"
  it_name :: string
  it_price :: rat
  it_quantity :: rat
  it_subtotal :: "rat option"

record order =
  o_id :: nat
  orderNumber :: "int \<times> nat"
  o_user :: "nat option"
  o_customer :: "nat option"
  o_restaurant :: nat
  o_driver :: "nat option"
  items :: "orderItem list"
  deliveryFee :: rat
  subtotal :: rat
  tax :: rat
  totalAmount :: rat
  paymentMethod :: string
  o_status :: string
  deliveryStatus :: "string option"
  statusHistory :: "(string \<times> int) list"
  updatedAt :: int

record delivery =
  d_id :: nat
  d_order :: nat
  d_driver :: nat
  d_status :: string
  startTime :: "int option"
  endTime :: "int option"
  actualDuration :: "int option"
  d_updatedAt :: int

record db =
  users :: "user list"
  restaurants :: "restaurant list"
  orders :: "order list"
  deliveries :: "delivery list"

text \<open>The response envelope: the HTTP status code, \<^verbatim>\<open>success\<close> and \<^verbatim>\<open>message\<close>.\<close>

record response =
  code :: nat
  success :: bool
  message :: string

definition respond :: "nat \<Rightarrow> bool \<Rightarrow> string \<Rightarrow> response" where
  "respond c s m = \<lparr> code = c, success = s, message = m \<rparr>"

text \<open>
  The Mongoose calls on a collection. A collection is the list of its documents;
  \<^verbatim>\<open>findOne\<close> and the \<^verbatim>\<open>ById\<close> calls act on the first document that matches.
\<close>

definition findById :: "('a \<Rightarrow> nat) \<Rightarrow> nat \<Rightarrow> 'a list \<Rightarrow> 'a option" where
  "findById idf k xs = find (\<lambda>x. idf x = k) xs"

fun updateFirst :: "('a \<Rightarrow> bool) \<Rightarrow> ('a \<Rightarrow> 'a) \<Rightarrow> 'a list \<Rightarrow> 'a list" where
  "updateFirst p f [] = []"
| "updateFirst p f (x # xs) = (if p x then f x # xs else x # updateFirst p f xs)"

fun deleteFirst :: "('a \<Rightarrow> bool) \<Rightarrow> 'a list \<Rightarrow> 'a list" where
  "deleteFirst p [] = []"
| "deleteFirst p (x # xs) = (if p x then xs else x # deleteFirst p xs)"

definition countDocuments :: "('a \<Rightarrow> bool) \<Rightarrow> 'a list \<Rightarrow> nat" where
  "countDocuments p xs = length (filter p xs)"

section \<open>Deliveries (models/Delivery.js)\<close>

text \<open>\<^verbatim>\<open>Math.round\<close>: the nearest integer, the larger one on a tie.\<close>

definition Math_round :: "rat \<Rightarrow> int" where
  "Math_round x = \<lfloor>x + 1 / 2\<rfloor>"

text \<open>\<^verbatim>\<open>deliverySchema.pre('save')\<close>; \<open>now\<close> is its \<^verbatim>\<open>Date.now()\<close>.\<close>

definition delivery_pre_save :: "int \<Rightarrow> delivery \<Rightarrow> delivery" where
  "delivery_pre_save now d =
     (let d1 = d\<lparr>d_updatedAt := now\<rparr>
      in case (startTime d1, endTime d1) of
           (Some st, Some en) \<Rightarrow>
             d1\<lparr>actualDuration := Some (Math_round (of_int (en - st) / (1000 * 60)))\<rparr>
         | _ \<Rightarrow> d1)"

section \<open>Orders, with the Delivery kept in step (the orders routes that load Delivery)\<close>

definition validStatusesB :: "string list" where
  "validStatusesB =
     [''pending'', ''confirmed'', ''picked_up'', ''in_transit'', ''delivered'', ''cancelled'']"

text \<open>
  The block under \<^verbatim>\<open>if (delivery)\<close> up to the assignment of \<^verbatim>\<open>delivery.status\<close>;
  \<open>now\<close> is the \<^verbatim>\<open>new Date()\<close> of the branch taken.
\<close>

definition syncDelivery :: "string \<Rightarrow> int \<Rightarrow> delivery \<Rightarrow> delivery" where
  "syncDelivery status now d =
     (if status = ''delivered'' then d\<lparr>endTime := Some now, d_status := ''completed''\<rparr>
      else if status \<in> set [''picked_up'', ''in_transit''] then
        (if startTime d = None then d\<lparr>startTime := Some now\<rparr> else d)\<lparr>d_status := ''ongoing''\<rparr>
      else d\<lparr>d_status := ''assigned''\<rparr>)"

text \<open>
  PUT /api/orders/:id/status, "Update order status and delivery status".
  Storage calls: 0 \<^verbatim>\<open>Order.findByIdAndUpdate\<close> with its populate chain,
  1 \<^verbatim>\<open>Delivery.findOne\<close>, 2 \<^verbatim>\<open>delivery.save\<close>.
  Clock readings: \<open>t_order\<close> for the Order's \<^verbatim>\<open>updatedAt\<close>, \<open>t_sync\<close> inside the Delivery
  block, \<open>t_save\<close> in the Delivery's pre-save hook.
\<close>

definition orders_put_status_sync ::
  "nat option \<Rightarrow> int \<Rightarrow> int \<Rightarrow> int \<Rightarrow> nat \<Rightarrow> jsval \<Rightarrow> db \<Rightarrow> db \<times> response" where
  "orders_put_status_sync fail_at t_order t_sync t_save oid status db =
     (case status of
        JStr s \<Rightarrow>
          if s \<notin> set validStatusesB then (db, respond 400 False ''Invalid status'')
          else if fail_at = Some 0 then (db, respond 500 False ''Error updating order'')
          else
            (case findById o_id oid (orders db) of
               None \<Rightarrow> (db, respond 404 False ''Order not found'')
             | Some _ \<Rightarrow>
                 let db1 = db\<lparr>orders :=
                             updateFirst (\<lambda>x. o_id x = oid)
                               (\<lambda>x. x\<lparr>o_status := s, updatedAt := t_order\<rparr>) (orders db)\<rparr>
                 in if fail_at = Some 1 then (db1, respond 500 False ''Error updating order'')
                    else
                      (case find (\<lambda>d. d_order d = oid) (deliveries db1) of
                         None \<Rightarrow> (db1, respond 200 True ''Order status updated successfully'')
                       | Some d \<Rightarrow>
                           let d1 = syncDelivery s t_sync d
                           in if fail_at = Some 2
                              then (db1, respond 500 False ''Error updating order'')
                              else (db1\<lparr>deliveries :=
                                          updateFirst (\<lambda>x. d_id x = d_id d)
                                            (\<lambda>_. delivery_pre_save t_save d1) (deliveries db1)\<rparr>,
                                    respond 200 True ''Order status updated successfully'')))
      | _ \<Rightarrow> (db, respond 400 False ''Invalid status''))"

section \<open>Orders, with deliveryStatus (the orders routes that load Order and User only)\<close>

definition validStatusesA :: "string list" where
  "validStatusesA =
     [''pending'', ''confirmed'', ''assigned'', ''picked_up'', ''in_transit'', ''delivered'',
      ''cancelled'']"

text \<open>The request body of POST /api/orders; \<open>None\<close> is an absent field.\<close>

record item_body =
  ib_menuItem :: "nat option"
  ib_name :: "string option"
  ib_price :: "rat option"
  ib_quantity :: "rat option"
  ib_subtotal :: "rat option"

record order_body =
  b_user :: "nat option"
  b_restaurant :: "nat option"
  b_items :: "item_body list option"
  b_deliveryFee :: "rat option"
  b_subtotal :: "rat option"
  b_tax :: "rat option"
  b_totalAmount :: "rat option"
  b_paymentMethod :: "string option"

text \<open>\<^verbatim>\<open>x || 0\<close> on a number or an absent field, and \<^verbatim>\<open>x || 'cash'\<close> on a string.\<close>

definition or_zero :: "rat option \<Rightarrow> rat" where
  "or_zero v = (case v of None \<Rightarrow> 0 | Some x \<Rightarrow> if x = 0 then 0 else x)"

definition or_cash :: "string option \<Rightarrow> string" where
  "or_cash v = (case v of None \<Rightarrow> ''cash'' | Some s \<Rightarrow> if s = [] then ''cash'' else s)"

text \<open>
  The schema's part in \<^verbatim>\<open>order.save()\<close>: \<^verbatim>\<open>items[].name\<close> and \<^verbatim>\<open>items[].price\<close> are
  required, \<^verbatim>\<open>quantity\<close> defaults to 1, \<^verbatim>\<open>paymentMethod\<close> is an enum, \<^verbatim>\<open>orderNumber\<close>
  and \<^verbatim>\<open>_id\<close> are unique.
\<close>

definition cast_item :: "item_body \<Rightarrow> orderItem option" where
  "cast_item i =
     (case (ib_name i, ib_price i) of
        (Some n, Some p) \<Rightarrow>
          if n = [] then None
          else Some \<lparr> it_menuItem = ib_menuItem i, it_name = n, it_price = p,
                      it_quantity = (case ib_quantity i of None \<Rightarrow> 1 | Some q \<Rightarrow> q),
                      it_subtotal = ib_subtotal i \<rparr>
      | _ \<Rightarrow> None)"

fun cast_items :: "item_body list \<Rightarrow> orderItem list option" where
  "cast_items [] = Some []"
| "cast_items (i # is) =
     (case cast_item i of
        None \<Rightarrow> None
      | Some x \<Rightarrow> (case cast_items is of None \<Rightarrow> None | Some xs \<Rightarrow> Some (x # xs)))"

text \<open>
  POST /api/orders. Storage calls: 0 \<^verbatim>\<open>User.findById\<close>, 1 \<^verbatim>\<open>Order.countDocuments\<close>,
  2 \<^verbatim>\<open>order.save\<close>, 3 \<^verbatim>\<open>order.populate\<close>. \<open>t_now\<close> is the \<^verbatim>\<open>Date.now()\<close> of the
  order number \<^verbatim>\<open>ORD-<t_now>-<count + 1>\<close> (kept as a pair), \<open>t_save\<close> the time stamp
  written by the save, \<open>new_id\<close> the \<^verbatim>\<open>_id\<close> given to the new document.
\<close>

definition orders_post ::
  "nat option \<Rightarrow> int \<Rightarrow> int \<Rightarrow> nat \<Rightarrow> order_body \<Rightarrow> db \<Rightarrow> db \<times> response" where
  "orders_post fail_at t_now t_save new_id body db =
     (case (b_user body, b_restaurant body, b_items body) of
        (Some usr, Some rst, Some its) \<Rightarrow>
          if its = [] then (db, respond 400 False ''User, restaurant, and items are required'')
          else if fail_at = Some 0 then (db, respond 500 False ''Failed to create order'')
          else
            (case findById u_id usr (users db) of
               None \<Rightarrow> (db, respond 404 False ''User not found'')
             | Some _ \<Rightarrow>
                 if fail_at = Some 1 then (db, respond 500 False ''Failed to create order'')
                 else
                   let orderCount = countDocuments (\<lambda>_. True) (orders db);
                       number = (t_now, orderCount + 1)
                   in (case cast_items its of
                         None \<Rightarrow> (db, respond 500 False ''Failed to create order'')
                       | Some cast \<Rightarrow>
                           let doc = \<lparr> o_id = new_id, orderNumber = number,
                                       o_user = Some usr, o_customer = None,
                                       o_restaurant = rst, o_driver = None, items = cast,
                                       deliveryFee = or_zero (b_deliveryFee body),
                                       subtotal = or_zero (b_subtotal body),
                                       tax = or_zero (b_tax body),
                                       totalAmount = or_zero (b_totalAmount body),
                                       paymentMethod = or_cash (b_paymentMethod body),
                                       o_status = ''pending'',
                                       deliveryStatus = Some ''pending'',
                                       statusHistory = [], updatedAt = t_save \<rparr>
                           in if fail_at = Some 2
                                 \<or> paymentMethod doc \<notin> set [''cash'', ''card'', ''online'']
                                 \<or> number \<in> set (map orderNumber (orders db))
                                 \<or> new_id \<in> set (map o_id (orders db))
                              then (db, respond 500 False ''Failed to create order'')
                              else
                                let db1 = db\<lparr>orders := orders db @ [doc]\<rparr>
                                in if fail_at = Some 3
                                   then (db1, respond 500 False ''Failed to create order'')
                                   else (db1, respond 201 True ''Order created successfully'')))
      | _ \<Rightarrow> (db, respond 400 False ''User, restaurant, and items are required''))"

text \<open>
  PUT /api/orders/:id/status. Storage calls: 0 \<^verbatim>\<open>Order.findByIdAndUpdate\<close>, 1 the reads that
  fill in the response (\<^verbatim>\<open>order.populate\<close>, \<^verbatim>\<open>User.findById\<close>). \<open>t_set\<close> and \<open>t_push\<close> are
  the two \<^verbatim>\<open>new Date()\<close> of the update.
\<close>

definition orders_put_status ::
  "nat option \<Rightarrow> int \<Rightarrow> int \<Rightarrow> nat \<Rightarrow> jsval \<Rightarrow> db \<Rightarrow> db \<times> response" where
  "orders_put_status fail_at t_set t_push oid status db =
     (if \<not> truthy status then (db, respond 400 False ''Status is required'')
      else
        (case status of
           JStr s \<Rightarrow>
             if s \<notin> set validStatusesA
             then (db, respond 400 False
                     ''Invalid status. Must be one of: pending, confirmed, assigned, picked_up, in_transit, delivered, cancelled'')
             else if fail_at = Some 0
             then (db, respond 500 False ''Failed to update order status'')
             else
               (case findById o_id oid (orders db) of
                  None \<Rightarrow> (db, respond 404 False ''Order not found'')
                | Some _ \<Rightarrow>
                    let db1 = db\<lparr>orders :=
                                updateFirst (\<lambda>x. o_id x = oid)
                                  (\<lambda>x. x\<lparr>o_status := s, deliveryStatus := Some s,
                                         updatedAt := t_set,
                                         statusHistory := statusHistory x @ [(s, t_push)]\<rparr>)
                                  (orders db)\<rparr>
                    in if fail_at = Some 1
                       then (db1, respond 500 False ''Failed to update order status'')
                       else (db1, respond 200 True ''Order status updated successfully''))
         | _ \<Rightarrow>
             (db, respond 400 False
                ''Invalid status. Must be one of: pending, confirmed, assigned, picked_up, in_transit, delivered, cancelled'')))"

text \<open>
  PUT /api/orders/:id/assign-driver; \<open>driverId = None\<close> is a missing (falsy) \<^verbatim>\<open>driverId\<close>.
  Storage calls: 0 \<^verbatim>\<open>User.findById\<close>, 1 \<^verbatim>\<open>Order.findByIdAndUpdate\<close>, 2 the reads that fill
  in the response.
\<close>

definition orders_assign_driver ::
  "nat option \<Rightarrow> int \<Rightarrow> nat \<Rightarrow> nat option \<Rightarrow> db \<Rightarrow> db \<times> response" where
  "orders_assign_driver fail_at t_now oid driverId db =
     (case driverId of
        None \<Rightarrow> (db, respond 400 False ''Driver ID is required'')
      | Some did \<Rightarrow>
          if fail_at = Some 0 then (db, respond 500 False ''Failed to assign driver'')
          else
            (case findById u_id did (users db) of
               None \<Rightarrow> (db, respond 404 False ''Driver not found'')
             | Some driver \<Rightarrow>
                 if userType driver \<noteq> ''driver''
                 then (db, respond 400 False ''User is not a driver'')
                 else if fail_at = Some 1
                 then (db, respond 500 False ''Failed to assign driver'')
                 else
                   (case findById o_id oid (orders db) of
                      None \<Rightarrow> (db, respond 404 False ''Order not found'')
                    | Some _ \<Rightarrow>
                        let db1 = db\<lparr>orders :=
                                    updateFirst (\<lambda>x. o_id x = oid)
                                      (\<lambda>x. x\<lparr>o_driver := Some did, o_status := ''assigned'',
                                             deliveryStatus := Some ''assigned'',
                                             updatedAt := t_now\<rparr>)
                                      (orders db)\<rparr>
                        in if fail_at = Some 2
                           then (db1, respond 500 False ''Failed to assign driver'')
                           else (db1, respond 200 True ''Driver assigned successfully''))))"

section \<open>Deleting accounts and restaurants\<close>

text \<open>
  DELETE /api/customers/:id. Storage calls: 0 \<^verbatim>\<open>User.findById\<close>,
  1 \<^verbatim>\<open>Order.countDocuments\<close>, 2 \<^verbatim>\<open>User.findByIdAndDelete\<close>.
\<close>

definition customers_delete :: "nat option \<Rightarrow> nat \<Rightarrow> db \<Rightarrow> db \<times> response" where
  "customers_delete fail_at cid db =
     (if fail_at = Some 0 then (db, respond 500 False ''Error deleting customer'')
      else
        (case findById u_id cid (users db) of
           None \<Rightarrow> (db, respond 404 False ''Customer not found'')
         | Some customer \<Rightarrow>
             if userType customer \<noteq> ''customer''
             then (db, respond 404 False ''Customer not found'')
             else if fail_at = Some 1
             then (db, respond 500 False ''Error deleting customer'')
             else
               let activeOrders =
                     countDocuments
                       (\<lambda>x. o_customer x = Some (u_id customer)
                            \<and> o_status x \<in> set [''pending'', ''confirmed'', ''picked_up'', ''in_transit''])
                       (orders db)
               in if activeOrders > 0
                  then (db, respond 400 False ''Cannot delete customer with active orders'')
                  else if fail_at = Some 2
                  then (db, respond 500 False ''Error deleting customer'')
                  else (db\<lparr>users := deleteFirst (\<lambda>u. u_id u = cid) (users db)\<rparr>,
                        respond 200 True ''Customer deleted successfully'')))"

text \<open>
  DELETE /api/drivers/:id. Storage calls: 0 \<^verbatim>\<open>User.findById\<close>,
  1 \<^verbatim>\<open>Delivery.countDocuments\<close>, 2 \<^verbatim>\<open>Order.countDocuments\<close>, 3 \<^verbatim>\<open>User.findByIdAndDelete\<close>.
\<close>

definition drivers_delete :: "nat option \<Rightarrow> nat \<Rightarrow> db \<Rightarrow> db \<times> response" where
  "drivers_delete fail_at did db =
     (if fail_at = Some 0 then (db, respond 500 False ''Error deleting driver'')
      else
        (case findById u_id did (users db) of
           None \<Rightarrow> (db, respond 404 False ''Driver not found'')
         | Some driver \<Rightarrow>
             if userType driver \<noteq> ''driver''
             then (db, respond 404 False ''Driver not found'')
             else if fail_at = Some 1 \<or> fail_at = Some 2
             then (db, respond 500 False ''Error deleting driver'')
             else
               let activeDeliveries =
                     countDocuments
                       (\<lambda>d. d_driver d = u_id driver \<and> d_status d \<in> set [''assigned'', ''ongoing''])
                       (deliveries db);
                   activeOrders =
                     countDocuments
                       (\<lambda>x. o_driver x = Some (u_id driver)
                            \<and> o_status x \<in> set [''confirmed'', ''picked_up'', ''in_transit''])
                       (orders db)
               in if activeDeliveries > 0 \<or> activeOrders > 0
                  then (db, respond 400 False
                          ''Cannot delete driver with active deliveries or orders'')
                  else if fail_at = Some 3
                  then (db, respond 500 False ''Error deleting driver'')
                  else (db\<lparr>users := deleteFirst (\<lambda>u. u_id u = did) (users db)\<rparr>,
                        respond 200 True ''Driver deleted successfully'')))"

text \<open>
  DELETE /api/restaurants/:id (both restaurants route files). Storage calls:
  0 \<^verbatim>\<open>Restaurant.findById\<close>, 1 \<^verbatim>\<open>Restaurant.findByIdAndDelete\<close>. Between them the images
  are removed from the image service, whose failures are caught and logged; that service
  holds no part of the database.
\<close>

definition restaurants_delete :: "nat option \<Rightarrow> nat \<Rightarrow> db \<Rightarrow> db \<times> response" where
  "restaurants_delete fail_at rid db =
     (if fail_at = Some 0 then (db, respond 500 False ''Failed to delete restaurant'')
      else
        (case findById r_id rid (restaurants db) of
           None \<Rightarrow> (db, respond 404 False ''Restaurant not found'')
         | Some _ \<Rightarrow>
             if fail_at = Some 1 then (db, respond 500 False ''Failed to delete restaurant'')
             else (db\<lparr>restaurants := deleteFirst (\<lambda>r. r_id r = rid) (restaurants db)\<rparr>,
                   respond 200 True ''Restaurant deleted successfully'')))"

section \<open>The deliveryStatus invariant and example data\<close>

text \<open>An Order whose \<^verbatim>\<open>deliveryStatus\<close> field holds the value of its \<^verbatim>\<open>status\<close> field.\<close>

definition status_mirrored :: "order \<Rightarrow> bool" where
  "status_mirrored x = (deliveryStatus x = Some (o_status x))"

text \<open>A small database: two customers, two drivers, one restaurant, one Order on its way
  with its Delivery; the same database once that Order has been delivered; and a request
  body whose items cost 10, 20 and 15 while its totalAmount is 50.\<close>

definition ex_order :: order where
  "ex_order = \<lparr> o_id = 10, orderNumber = (1000, 1), o_user = Some 1, o_customer = Some 1,
                o_restaurant = 5, o_driver = Some 2, items = [],
                deliveryFee = 0, subtotal = 0, tax = 0, totalAmount = 30,
                paymentMethod = ''cash'', o_status = ''in_transit'',
                deliveryStatus = Some ''in_transit'', statusHistory = [], updatedAt = 1000 \<rparr>"

definition ex_delivery :: delivery where
  "ex_delivery = \<lparr> d_id = 20, d_order = 10, d_driver = 2, d_status = ''ongoing'',
                   startTime = Some 60000, endTime = None, actualDuration = None,
                   d_updatedAt = 60000 \<rparr>"

definition ex_db :: db where
  "ex_db = \<lparr> users = [\<lparr> u_id = 1, userType = ''customer'' \<rparr>,
                      \<lparr> u_id = 2, userType = ''driver'' \<rparr>,
                      \<lparr> u_id = 3, userType = ''driver'' \<rparr>,
                      \<lparr> u_id = 4, userType = ''customer'' \<rparr>],
             restaurants = [\<lparr> r_id = 5, r_image = None, r_coverImage = None \<rparr>],
             orders = [ex_order],
             deliveries = [ex_delivery] \<rparr>"

definition ex_db_done :: db where
  "ex_db_done = ex_db\<lparr> orders := [ex_order\<lparr>o_status := ''delivered''\<rparr>],
                       deliveries := [ex_delivery\<lparr>d_status := ''completed'',
                                       endTime := Some 120000, actualDuration := Some 1\<rparr>] \<rparr>"

definition ex_body :: order_body where
  "ex_body = \<lparr> b_user = Some 1, b_restaurant = Some 5,
               b_items = Some [\<lparr> ib_menuItem = None, ib_name = Some ''Burger'', ib_price = Some 10,
                                 ib_quantity = Some 1, ib_subtotal = None \<rparr>,
                               \<lparr> ib_menuItem = None, ib_name = Some ''Pizza'', ib_price = Some 10,
                                 ib_quantity = Some 2, ib_subtotal = None \<rparr>,
                               \<lparr> ib_menuItem = None, ib_name = Some ''Salad'', ib_price = Some 15,
                                 ib_quantity = None, ib_subtotal = None \<rparr>],
               b_deliveryFee = None, b_subtotal = None, b_tax = None,
               b_totalAmount = Some 50, b_paymentMethod = None \<rparr>"

section \<open>Properties\<close>

subsection \<open>Collections\<close>

lemma find_updateFirst:
  "(\<And>x. p x \<Longrightarrow> p (f x)) \<Longrightarrow> find p (updateFirst p f xs) = map_option f (find p xs)"
  by (induction xs) auto

lemma findById_updateFirst:
  "(\<And>x. idf (f x) = idf x) \<Longrightarrow>
   findById idf k (updateFirst (\<lambda>x. idf x = k) f xs) = map_option f (findById idf k xs)"
  unfolding findById_def by (rule find_updateFirst) simp

lemma findById_Some_id: "findById idf k xs = Some x \<Longrightarrow> idf x = k \<and> x \<in> set xs"
  unfolding findById_def by (auto simp: find_Some_iff)

lemma findById_None_iff: "findById idf k xs = None \<longleftrightarrow> k \<notin> set (map idf xs)"
  unfolding findById_def by (auto simp: find_None_iff)

lemma findById_deleteFirst:
  "distinct (map idf xs) \<Longrightarrow> findById idf k (deleteFirst (\<lambda>x. idf x = k) xs) = None"
proof (induction xs)
  case Nil
  then show ?case by (simp add: findById_def)
next
  case (Cons a xs)
  show ?case
  proof (cases "idf a = k")
    case True
    with Cons.prems have "k \<notin> set (map idf xs)" by auto
    with True show ?thesis by (simp add: findById_None_iff)
  next
    case False
    with Cons show ?thesis by (simp add: findById_def)
  qed
qed

lemma findById_append_new:
  "k \<notin> set (map idf xs) \<Longrightarrow> idf y = k \<Longrightarrow> findById idf k (xs @ [y]) = Some y"
  unfolding findById_def by (induction xs) auto

lemma list_all_updateFirst:
  "list_all P xs \<Longrightarrow> (\<And>x. p x \<Longrightarrow> P (f x)) \<Longrightarrow> list_all P (updateFirst p f xs)"
  by (induction xs) auto

lemma countDocuments_pos: "countDocuments p xs > 0 \<longleftrightarrow> (\<exists>x\<in>set xs. p x)"
  unfolding countDocuments_def by (simp add: filter_empty_conv)

lemma findById_updateFirst_order:
  "findById o_id k xs = Some x \<Longrightarrow> (\<And>y. o_id (f y) = o_id y) \<Longrightarrow>
   findById o_id k (updateFirst (\<lambda>y. o_id y = k) f xs) = Some (f x)"
  by (simp add: findById_updateFirst)

lemma saved_delivery_found:
  assumes "find (\<lambda>x. d_order x = oid) ds = Some d" and "d_id d1 = d_id d"
  shows "findById d_id (d_id d) (updateFirst (\<lambda>x. d_id x = d_id d) (\<lambda>_. d1) ds) = Some d1"
proof -
  from assms(1) have "d \<in> set ds"
    by (auto simp: find_Some_iff)
  then have "find (\<lambda>x. d_id x = d_id d) ds \<noteq> None"
    by (auto simp: find_None_iff)
  then obtain y where y: "find (\<lambda>x. d_id x = d_id d) ds = Some y"
    by blast
  have "find (\<lambda>x. d_id x = d_id d) (updateFirst (\<lambda>x. d_id x = d_id d) (\<lambda>_. d1) ds)
          = map_option (\<lambda>_. d1) (find (\<lambda>x. d_id x = d_id d) ds)"
    by (rule find_updateFirst) (simp add: assms(2))
  with y show ?thesis
    by (simp add: findById_def)
qed

lemma syncDelivery_keeps: "d_id (syncDelivery s t d) = d_id d \<and> d_order (syncDelivery s t d) = d_order d
   \<and> d_driver (syncDelivery s t d) = d_driver d"
  by (simp add: syncDelivery_def)

lemma delivery_pre_save_keeps:
  "d_id (delivery_pre_save t d) = d_id d \<and> d_order (delivery_pre_save t d) = d_order d
   \<and> d_driver (delivery_pre_save t d) = d_driver d \<and> d_status (delivery_pre_save t d) = d_status d
   \<and> startTime (delivery_pre_save t d) = startTime d \<and> endTime (delivery_pre_save t d) = endTime d
   \<and> d_updatedAt (delivery_pre_save t d) = t"
  by (simp add: delivery_pre_save_def Let_def split: option.splits)

lemma orders_put_status_sync_ok:
  assumes "s \<in> set validStatusesB"
      and "findById o_id oid (orders db) = Some ord"
      and "find (\<lambda>d. d_order d = oid) (deliveries db) = Some d"
  shows "orders_put_status_sync None t1 t2 t3 oid (JStr s) db =
           (db\<lparr>orders := updateFirst (\<lambda>x. o_id x = oid)
                             (\<lambda>x. x\<lparr>o_status := s, updatedAt := t1\<rparr>) (orders db),
                deliveries := updateFirst (\<lambda>x. d_id x = d_id d)
                             (\<lambda>_. delivery_pre_save t3 (syncDelivery s t2 d)) (deliveries db)\<rparr>,
            respond 200 True ''Order status updated successfully'')"
  using assms by (simp add: orders_put_status_sync_def Let_def)

text \<open>
  C1 (as amended). When PUT /api/orders/:id/status of the routes that keep the Delivery in
  step is called with an accepted status for an existing Order that has a Delivery, and no
  storage call fails, the Delivery is saved with its status set by the fixed mapping:
  delivered gives completed, picked_up and in_transit give ongoing, every other accepted
  status gives assigned. On delivered, endTime is set to the current time whether or not it
  was set before. On picked_up and in_transit, startTime is set to the current time only if
  it was unset. The saved document has passed the pre-save hook (its updatedAt is the time of
  the save).
\<close>

theorem delivery_sync_mapping:
  assumes "s \<in> set validStatusesB"
      and "findById o_id oid (orders db) = Some ord"
      and "find (\<lambda>d. d_order d = oid) (deliveries db) = Some d"
  shows "\<exists>d1. findById d_id (d_id d)
                 (deliveries (fst (orders_put_status_sync None t1 t2 t3 oid (JStr s) db))) = Some d1
          \<and> d_status d1 = (if s = ''delivered'' then ''completed''
                            else if s = ''picked_up'' \<or> s = ''in_transit'' then ''ongoing''
                            else ''assigned'')
          \<and> endTime d1 = (if s = ''delivered'' then Some t2 else endTime d)
          \<and> startTime d1 = (if (s = ''picked_up'' \<or> s = ''in_transit'') \<and> startTime d = None
                             then Some t2 else startTime d)
          \<and> d_updatedAt d1 = t3
          \<and> d_order d1 = oid \<and> d_driver d1 = d_driver d"
proof -
  let ?d1 = "delivery_pre_save t3 (syncDelivery s t2 d)"
  have id: "d_id ?d1 = d_id d"
    by (simp add: delivery_pre_save_keeps syncDelivery_keeps)
  have ord: "d_order d = oid"
    using assms(3) by (auto simp: find_Some_iff)
  have "findById d_id (d_id d)
          (deliveries (fst (orders_put_status_sync None t1 t2 t3 oid (JStr s) db))) = Some ?d1"
    using saved_delivery_found [OF assms(3) id] by (simp add: orders_put_status_sync_ok [OF assms])
  moreover have "d_status ?d1 = (if s = ''delivered'' then ''completed''
                            else if s = ''picked_up'' \<or> s = ''in_transit'' then ''ongoing''
                            else ''assigned'')"
    by (simp add: delivery_pre_save_keeps syncDelivery_def)
  moreover have "endTime ?d1 = (if s = ''delivered'' then Some t2 else endTime d)"
    by (simp add: delivery_pre_save_keeps syncDelivery_def)
  moreover have "startTime ?d1 = (if (s = ''picked_up'' \<or> s = ''in_transit'') \<and> startTime d = None
                             then Some t2 else startTime d)"
    by (simp add: delivery_pre_save_keeps syncDelivery_def)
  moreover have "d_updatedAt ?d1 = t3 \<and> d_order ?d1 = oid \<and> d_driver ?d1 = d_driver d"
    by (simp add: delivery_pre_save_keeps syncDelivery_keeps ord)
  ultimately show ?thesis
    by blast
qed

theorem delivery_sync_mapping_witness:
  "''picked_up'' \<in> set validStatusesB
   \<and> findById o_id 10 (orders ex_db) = Some ex_order
   \<and> find (\<lambda>d. d_order d = 10) (deliveries ex_db) = Some ex_delivery
   \<and> (\<exists>d1. findById d_id 20
               (deliveries (fst (orders_put_status_sync None 500000 500001 500002 10
                                   (JStr ''picked_up'') ex_db))) = Some d1
          \<and> d_status d1 = ''ongoing'' \<and> endTime d1 = None \<and> startTime d1 = Some 60000
          \<and> d_updatedAt d1 = 500002 \<and> d_order d1 = 10 \<and> d_driver d1 = 2)
   \<and> ''delivered'' \<in> set validStatusesB
   \<and> findById o_id 10 (orders ex_db_done) = Some (ex_order\<lparr>o_status := ''delivered''\<rparr>)
   \<and> find (\<lambda>d. d_order d = 10) (deliveries ex_db_done)
       = Some (ex_delivery\<lparr>d_status := ''completed'', endTime := Some 120000,
                             actualDuration := Some 1\<rparr>)
   \<and> (\<exists>d1. findById d_id 20
               (deliveries (fst (orders_put_status_sync None 500000 500001 500002 10
                                   (JStr ''delivered'') ex_db_done))) = Some d1
          \<and> d_status d1 = ''completed'' \<and> endTime d1 = Some 500001
          \<and> startTime d1 = Some 60000)"
proof -
  have h1: "''picked_up'' \<in> set validStatusesB"
    by (simp add: validStatusesB_def)
  have h2: "findById o_id 10 (orders ex_db) = Some ex_order"
    by (simp add: findById_def ex_db_def ex_order_def)
  have h3: "find (\<lambda>d. d_order d = 10) (deliveries ex_db) = Some ex_delivery"
    by (simp add: ex_db_def ex_delivery_def)
  have e: "d_id ex_delivery = 20 \<and> startTime ex_delivery = Some 60000
           \<and> endTime ex_delivery = None \<and> d_driver ex_delivery = 2"
    by (simp add: ex_delivery_def)
  have g1: "''delivered'' \<in> set validStatusesB"
    by (simp add: validStatusesB_def)
  have g2: "findById o_id 10 (orders ex_db_done) = Some (ex_order\<lparr>o_status := ''delivered''\<rparr>)"
    by (simp add: findById_def ex_db_done_def ex_order_def)
  have g3: "find (\<lambda>d. d_order d = 10) (deliveries ex_db_done)
       = Some (ex_delivery\<lparr>d_status := ''completed'', endTime := Some 120000,
                             actualDuration := Some 1\<rparr>)"
    by (simp add: ex_db_done_def ex_delivery_def)
  show ?thesis
    using h1 h2 h3 g1 g2 g3 e
      delivery_sync_mapping [OF h1 h2 h3, of 500000 500001 500002]
      delivery_sync_mapping [OF g1 g2 g3, of 500000 500001 500002]
    by auto
qed

text \<open>
  C1 as stated fails: a Delivery whose endTime is already set (120000) has it replaced by
  the time of a later delivered update (500001).
\<close>

theorem delivered_overwrites_endTime:
  "map endTime (deliveries ex_db_done) = [Some 120000]
   \<and> map endTime (deliveries (fst (orders_put_status_sync None 500000 500001 500002 10
                                     (JStr ''delivered'') ex_db_done))) = [Some 500001]"
  by (simp add: orders_put_status_sync_def validStatusesB_def findById_def syncDelivery_def
        delivery_pre_save_def Let_def ex_db_done_def ex_db_def ex_order_def ex_delivery_def)

text \<open>
  C6. When an existing Order that has a Delivery is moved to delivered and no storage call
  fails, the saved Delivery has endTime set (to the current time), and if startTime was
  already set, its actualDuration is round((endTime - startTime) / 60000), the duration in
  whole minutes that the pre-save hook derives from the two time stamps.
\<close>

theorem delivered_sets_endTime_and_actualDuration:
  assumes "findById o_id oid (orders db) = Some ord"
      and "find (\<lambda>d. d_order d = oid) (deliveries db) = Some d"
  shows "\<exists>d1. findById d_id (d_id d)
                 (deliveries (fst (orders_put_status_sync None t1 t2 t3 oid
                                     (JStr ''delivered'') db))) = Some d1
          \<and> d_order d1 = oid
          \<and> endTime d1 = Some t2
          \<and> (\<forall>st. startTime d = Some st \<longrightarrow>
                 actualDuration d1 = Some (round (of_int (t2 - st) / 60000 :: rat)))"
proof -
  let ?d1 = "delivery_pre_save t3 (syncDelivery ''delivered'' t2 d)"
  have v: "''delivered'' \<in> set validStatusesB"
    by (simp add: validStatusesB_def)
  have id: "d_id ?d1 = d_id d"
    by (simp add: delivery_pre_save_keeps syncDelivery_keeps)
  have ord: "d_order d = oid"
    using assms(2) by (auto simp: find_Some_iff)
  have "findById d_id (d_id d)
          (deliveries (fst (orders_put_status_sync None t1 t2 t3 oid (JStr ''delivered'') db)))
        = Some ?d1"
    using saved_delivery_found [OF assms(2) id]
    by (simp add: orders_put_status_sync_ok [OF v assms])
  moreover have "d_order ?d1 = oid"
    by (simp add: delivery_pre_save_keeps syncDelivery_keeps ord)
  moreover have "endTime ?d1 = Some t2"
    by (simp add: delivery_pre_save_keeps syncDelivery_def)
  moreover have "\<forall>st. startTime d = Some st \<longrightarrow>
                   actualDuration ?d1 = Some (round (of_int (t2 - st) / 60000 :: rat))"
    by (simp add: delivery_pre_save_def syncDelivery_def Let_def Math_round_def round_def)
  ultimately show ?thesis
    by blast
qed

theorem delivered_sets_endTime_and_actualDuration_witness:
  "findById o_id 10 (orders ex_db) = Some ex_order
   \<and> find (\<lambda>d. d_order d = 10) (deliveries ex_db) = Some ex_delivery
   \<and> startTime ex_delivery = Some 60000
   \<and> (\<exists>d1. findById d_id 20
               (deliveries (fst (orders_put_status_sync None 500000 500001 500002 10
                                   (JStr ''delivered'') ex_db))) = Some d1
          \<and> d_order d1 = 10 \<and> endTime d1 = Some 500001 \<and> actualDuration d1 = Some 7)"
proof -
  have h2: "findById o_id 10 (orders ex_db) = Some ex_order"
    by (simp add: findById_def ex_db_def ex_order_def)
  have h3: "find (\<lambda>d. d_order d = 10) (deliveries ex_db) = Some ex_delivery"
    by (simp add: ex_db_def ex_delivery_def)
  have e: "d_id ex_delivery = 20 \<and> startTime ex_delivery = Some 60000"
    by (simp add: ex_delivery_def)
  have r: "round (of_int (500001 - 60000) / 60000 :: rat) = 7"
    by (simp add: round_def floor_eq_iff)
  show ?thesis
    using h2 h3 e r delivered_sets_endTime_and_actualDuration [OF h2 h3, of 500000 500001 500002]
    by simp
qed

text \<open>
  C4. When the Order write succeeds and the save of the Delivery then fails, the handler
  answers 500 and the database holds the Order with its new status: the Order write is not
  undone, the Delivery is as it was, and nothing else is changed.
\<close>

theorem order_update_survives_delivery_save_failure:
  assumes "s \<in> set validStatusesB"
      and "findById o_id oid (orders db) = Some ord"
      and "find (\<lambda>d. d_order d = oid) (deliveries db) = Some d"
  shows "orders_put_status_sync (Some 2) t1 t2 t3 oid (JStr s) db =
           (db\<lparr>orders := updateFirst (\<lambda>x. o_id x = oid)
                             (\<lambda>x. x\<lparr>o_status := s, updatedAt := t1\<rparr>) (orders db)\<rparr>,
            respond 500 False ''Error updating order'')
         \<and> findById o_id oid
             (orders (fst (orders_put_status_sync (Some 2) t1 t2 t3 oid (JStr s) db)))
           = Some (ord\<lparr>o_status := s, updatedAt := t1\<rparr>)
         \<and> deliveries (fst (orders_put_status_sync (Some 2) t1 t2 t3 oid (JStr s) db))
           = deliveries db"
proof -
  have run: "orders_put_status_sync (Some 2) t1 t2 t3 oid (JStr s) db =
           (db\<lparr>orders := updateFirst (\<lambda>x. o_id x = oid)
                             (\<lambda>x. x\<lparr>o_status := s, updatedAt := t1\<rparr>) (orders db)\<rparr>,
            respond 500 False ''Error updating order'')"
    using assms by (simp add: orders_put_status_sync_def Let_def)
  have "findById o_id oid
          (updateFirst (\<lambda>x. o_id x = oid) (\<lambda>x. x\<lparr>o_status := s, updatedAt := t1\<rparr>) (orders db))
        = Some (ord\<lparr>o_status := s, updatedAt := t1\<rparr>)"
    using assms(2) by (rule findById_updateFirst_order) simp
  with run show ?thesis
    by simp
qed

theorem order_update_survives_delivery_save_failure_witness:
  "''delivered'' \<in> set validStatusesB
   \<and> findById o_id 10 (orders ex_db) = Some ex_order
   \<and> find (\<lambda>d. d_order d = 10) (deliveries ex_db) = Some ex_delivery
   \<and> o_status ex_order = ''in_transit''
   \<and> code (snd (orders_put_status_sync (Some 2) 500000 500001 500002 10
                   (JStr ''delivered'') ex_db)) = 500
   \<and> map o_status (orders (fst (orders_put_status_sync (Some 2) 500000 500001 500002 10
                   (JStr ''delivered'') ex_db))) = [''delivered'']
   \<and> deliveries (fst (orders_put_status_sync (Some 2) 500000 500001 500002 10
                   (JStr ''delivered'') ex_db)) = [ex_delivery]"
proof -
  have h1: "''delivered'' \<in> set validStatusesB"
    by (simp add: validStatusesB_def)
  have h2: "findById o_id 10 (orders ex_db) = Some ex_order"
    by (simp add: findById_def ex_db_def ex_order_def)
  have h3: "find (\<lambda>d. d_order d = 10) (deliveries ex_db) = Some ex_delivery"
    by (simp add: ex_db_def ex_delivery_def)
  have e: "o_status ex_order = ''in_transit'' \<and> orders ex_db = [ex_order]
           \<and> deliveries ex_db = [ex_delivery] \<and> o_id ex_order = 10"
    by (simp add: ex_db_def ex_order_def)
  show ?thesis
    using h1 h2 h3 e
      order_update_survives_delivery_save_failure [OF h1 h2 h3, of 500000 500001 500002]
    by (simp add: respond_def)
qed

text \<open>
  C3. For both PUT /api/orders/:id/status handlers: a status that is not one of the
  handler's accepted status strings is answered with 400 and the database is returned as it
  was, so neither the status, a time stamp, deliveryStatus nor the status history of any
  Order changes.
\<close>

theorem invalid_status_rejected:
  "(status \<notin> JStr ` set validStatusesA \<longrightarrow>
      fst (orders_put_status fail_at t_set t_push oid status db) = db
      \<and> code (snd (orders_put_status fail_at t_set t_push oid status db)) = 400)
   \<and> (status \<notin> JStr ` set validStatusesB \<longrightarrow>
      fst (orders_put_status_sync fail_at t_order t_sync t_save oid status db) = db
      \<and> code (snd (orders_put_status_sync fail_at t_order t_sync t_save oid status db)) = 400)"
  by (cases status)
     (auto simp: orders_put_status_def orders_put_status_sync_def respond_def)

theorem invalid_status_rejected_witness:
  "JStr ''shipped'' \<notin> JStr ` set validStatusesA
   \<and> JStr ''assigned'' \<notin> JStr ` set validStatusesB
   \<and> orders_put_status None 77 78 10 (JStr ''shipped'') ex_db
       = (ex_db, respond 400 False
            ''Invalid status. Must be one of: pending, confirmed, assigned, picked_up, in_transit, delivered, cancelled'')
   \<and> fst (orders_put_status_sync None 77 78 79 10 (JStr ''assigned'') ex_db) = ex_db
   \<and> code (snd (orders_put_status_sync None 77 78 79 10 (JStr ''assigned'') ex_db)) = 400"
proof -
  have a: "JStr ''shipped'' \<notin> JStr ` set validStatusesA"
    by (simp add: validStatusesA_def image_iff)
  have b: "JStr ''assigned'' \<notin> JStr ` set validStatusesB"
    by (simp add: validStatusesB_def image_iff)
  have c: "orders_put_status None 77 78 10 (JStr ''shipped'') ex_db
       = (ex_db, respond 400 False
            ''Invalid status. Must be one of: pending, confirmed, assigned, picked_up, in_transit, delivered, cancelled'')"
    by (simp add: orders_put_status_def validStatusesA_def)
  show ?thesis
    using a b c
      invalid_status_rejected [of "JStr ''shipped''" None 77 78 10 ex_db 77 78 79]
      invalid_status_rejected [of "JStr ''assigned''" None 77 78 10 ex_db 77 78 79]
    by simp
qed


lemma orders_assign_driver_ok:
  assumes "findById u_id did (users db) = Some u" and "userType u = ''driver''"
      and "findById o_id oid (orders db) = Some ord"
      and "fail_at \<noteq> Some 0" and "fail_at \<noteq> Some 1"
  shows "fst (orders_assign_driver fail_at t oid (Some did) db) =
           db\<lparr>orders := updateFirst (\<lambda>x. o_id x = oid)
                            (\<lambda>x. x\<lparr>o_driver := Some did, o_status := ''assigned'',
                                   deliveryStatus := Some ''assigned'', updatedAt := t\<rparr>)
                            (orders db)\<rparr>"
  using assms by (simp add: orders_assign_driver_def Let_def)

lemma orders_put_status_ok:
  assumes "s \<in> set validStatusesA" and "findById o_id oid (orders db) = Some ord"
      and "fail_at \<noteq> Some 0"
  shows "fst (orders_put_status fail_at t1 t2 oid (JStr s) db) =
           db\<lparr>orders := updateFirst (\<lambda>x. o_id x = oid)
                            (\<lambda>x. x\<lparr>o_status := s, deliveryStatus := Some s, updatedAt := t1,
                                   statusHistory := statusHistory x @ [(s, t2)]\<rparr>)
                            (orders db)\<rparr>"
proof -
  from assms(1) have "s \<noteq> []"
    by (auto simp: validStatusesA_def)
  with assms show ?thesis
    by (simp add: orders_put_status_def Let_def)
qed

lemma orders_post_created:
  assumes "code (snd (orders_post fail_at t_now t_save new_id body db)) = 201"
  shows "\<exists>usr rst cast.
           fst (orders_post fail_at t_now t_save new_id body db) =
             db\<lparr>orders := orders db @
               [\<lparr> o_id = new_id, orderNumber = (t_now, countDocuments (\<lambda>_. True) (orders db) + 1),
                  o_user = Some usr, o_customer = None, o_restaurant = rst, o_driver = None,
                  items = cast, deliveryFee = or_zero (b_deliveryFee body),
                  subtotal = or_zero (b_subtotal body), tax = or_zero (b_tax body),
                  totalAmount = or_zero (b_totalAmount body),
                  paymentMethod = or_cash (b_paymentMethod body),
                  o_status = ''pending'', deliveryStatus = Some ''pending'',
                  statusHistory = [], updatedAt = t_save \<rparr>]\<rparr>
           \<and> new_id \<notin> set (map o_id (orders db))"
  using assms
  by (auto simp: orders_post_def Let_def respond_def split: option.splits if_splits)

text \<open>
  C7. PUT /api/orders/:id/assign-driver with a driver identifier: if no Account has that
  identifier, or the Account's userType is not driver, the call fails and the database is
  unchanged; otherwise (the Order exists and the lookup and the write do not fail) the Order
  has its driver set to that identifier and its status set to assigned. In every case the
  deliveries collection is as it was.
\<close>

theorem assign_driver_spec:
  "((findById u_id did (users db) = None
       \<or> (\<exists>u. findById u_id did (users db) = Some u \<and> userType u \<noteq> ''driver''))
      \<longrightarrow> fst (orders_assign_driver fail_at t oid (Some did) db) = db
          \<and> \<not> success (snd (orders_assign_driver fail_at t oid (Some did) db))
          \<and> code (snd (orders_assign_driver fail_at t oid (Some did) db)) \<in> {400, 404, 500})
   \<and> (findById u_id did (users db) = Some drv \<and> userType drv = ''driver''
        \<and> findById o_id oid (orders db) = Some ord \<and> fail_at \<noteq> Some 0 \<and> fail_at \<noteq> Some 1
      \<longrightarrow> findById o_id oid (orders (fst (orders_assign_driver fail_at t oid (Some did) db)))
            = Some (ord\<lparr>o_driver := Some did, o_status := ''assigned'',
                        deliveryStatus := Some ''assigned'', updatedAt := t\<rparr>))
   \<and> deliveries (fst (orders_assign_driver fail_at t oid driverId db)) = deliveries db"
proof (intro conjI impI)
  assume bad: "findById u_id did (users db) = None
       \<or> (\<exists>u. findById u_id did (users db) = Some u \<and> userType u \<noteq> ''driver'')"
  then show "fst (orders_assign_driver fail_at t oid (Some did) db) = db"
    by (auto simp: orders_assign_driver_def)
  from bad show "\<not> success (snd (orders_assign_driver fail_at t oid (Some did) db))"
    by (auto simp: orders_assign_driver_def respond_def)
  from bad show "code (snd (orders_assign_driver fail_at t oid (Some did) db)) \<in> {400, 404, 500}"
    by (auto simp: orders_assign_driver_def respond_def)
next
  assume ok: "findById u_id did (users db) = Some drv \<and> userType drv = ''driver''
        \<and> findById o_id oid (orders db) = Some ord \<and> fail_at \<noteq> Some 0 \<and> fail_at \<noteq> Some 1"
  then have a: "findById u_id did (users db) = Some drv" and b: "userType drv = ''driver''"
    and c: "findById o_id oid (orders db) = Some ord"
    and d: "fail_at \<noteq> Some 0" and e: "fail_at \<noteq> Some 1"
    by blast+
  have "fst (orders_assign_driver fail_at t oid (Some did) db) =
           db\<lparr>orders := updateFirst (\<lambda>x. o_id x = oid)
                            (\<lambda>x. x\<lparr>o_driver := Some did, o_status := ''assigned'',
                                   deliveryStatus := Some ''assigned'', updatedAt := t\<rparr>)
                            (orders db)\<rparr>"
    by (rule orders_assign_driver_ok [OF a b c d e])
  moreover have "findById o_id oid
       (updateFirst (\<lambda>x. o_id x = oid)
          (\<lambda>x. x\<lparr>o_driver := Some did, o_status := ''assigned'',
                 deliveryStatus := Some ''assigned'', updatedAt := t\<rparr>) (orders db))
       = Some (ord\<lparr>o_driver := Some did, o_status := ''assigned'',
                        deliveryStatus := Some ''assigned'', updatedAt := t\<rparr>)"
    using c by (rule findById_updateFirst_order) simp
  ultimately show "findById o_id oid (orders (fst (orders_assign_driver fail_at t oid (Some did) db)))
            = Some (ord\<lparr>o_driver := Some did, o_status := ''assigned'',
                        deliveryStatus := Some ''assigned'', updatedAt := t\<rparr>)"
    by simp
next
  show "deliveries (fst (orders_assign_driver fail_at t oid driverId db)) = deliveries db"
    by (simp add: orders_assign_driver_def Let_def split: option.splits)
qed

theorem assign_driver_spec_witness:
  "findById u_id 9 (users ex_db) = None
   \<and> orders_assign_driver None 77 10 (Some 9) ex_db = (ex_db, respond 404 False ''Driver not found'')
   \<and> findById u_id 1 (users ex_db) = Some \<lparr> u_id = 1, userType = ''customer'' \<rparr>
   \<and> orders_assign_driver None 77 10 (Some 1) ex_db = (ex_db, respond 400 False ''User is not a driver'')
   \<and> findById u_id 3 (users ex_db) = Some \<lparr> u_id = 3, userType = ''driver'' \<rparr>
   \<and> findById o_id 10 (orders ex_db) = Some ex_order
   \<and> findById o_id 10 (orders (fst (orders_assign_driver None 77 10 (Some 3) ex_db)))
       = Some (ex_order\<lparr>o_driver := Some 3, o_status := ''assigned'',
                        deliveryStatus := Some ''assigned'', updatedAt := 77\<rparr>)
   \<and> deliveries (fst (orders_assign_driver None 77 10 (Some 3) ex_db)) = [ex_delivery]"
proof -
  have u9: "findById u_id 9 (users ex_db) = None"
    by (simp add: findById_def ex_db_def)
  have u1: "findById u_id 1 (users ex_db) = Some \<lparr> u_id = 1, userType = ''customer'' \<rparr>"
    by (simp add: findById_def ex_db_def)
  have u3: "findById u_id 3 (users ex_db) = Some \<lparr> u_id = 3, userType = ''driver'' \<rparr>"
    by (simp add: findById_def ex_db_def)
  have o10: "findById o_id 10 (orders ex_db) = Some ex_order"
    by (simp add: findById_def ex_db_def ex_order_def)
  have r9: "orders_assign_driver None 77 10 (Some 9) ex_db
              = (ex_db, respond 404 False ''Driver not found'')"
    using u9 by (simp add: orders_assign_driver_def)
  have r1: "orders_assign_driver None 77 10 (Some 1) ex_db
              = (ex_db, respond 400 False ''User is not a driver'')"
    using u1 by (simp add: orders_assign_driver_def)
  have d: "deliveries ex_db = [ex_delivery]"
    by (simp add: ex_db_def)
  show ?thesis
    using u9 u1 u3 o10 r9 r1 d
      assign_driver_spec [where did = 9 and db = ex_db and fail_at = None and t = 77 and oid = 10
          and drv = "\<lparr> u_id = 3, userType = ''driver'' \<rparr>" and ord = ex_order
          and driverId = "Some 3"]
      assign_driver_spec [where did = 1 and db = ex_db and fail_at = None and t = 77 and oid = 10
          and drv = "\<lparr> u_id = 3, userType = ''driver'' \<rparr>" and ord = ex_order
          and driverId = "Some 3"]
      assign_driver_spec [where did = 3 and db = ex_db and fail_at = None and t = 77 and oid = 10
          and drv = "\<lparr> u_id = 3, userType = ''driver'' \<rparr>" and ord = ex_order
          and driverId = "Some 3"]
    by simp
qed

lemma orders_post_accepted:
  assumes "b_user body = Some usr" and "b_restaurant body = Some rst"
      and "b_items body = Some its" and "its \<noteq> []"
      and "findById u_id usr (users db) \<noteq> None"
      and "cast_items its = Some cast"
      and "or_cash (b_paymentMethod body) \<in> set [''cash'', ''card'', ''online'']"
      and "(t_now, countDocuments (\<lambda>_. True) (orders db) + 1) \<notin> set (map orderNumber (orders db))"
      and "new_id \<notin> set (map o_id (orders db))"
      and "fail_at \<noteq> Some 0" and "fail_at \<noteq> Some 1" and "fail_at \<noteq> Some 2"
  shows "orders_post fail_at t_now t_save new_id body db =
           (db\<lparr>orders := orders db @
               [\<lparr> o_id = new_id, orderNumber = (t_now, countDocuments (\<lambda>_. True) (orders db) + 1),
                  o_user = Some usr, o_customer = None, o_restaurant = rst, o_driver = None,
                  items = cast, deliveryFee = or_zero (b_deliveryFee body),
                  subtotal = or_zero (b_subtotal body), tax = or_zero (b_tax body),
                  totalAmount = or_zero (b_totalAmount body),
                  paymentMethod = or_cash (b_paymentMethod body),
                  o_status = ''pending'', deliveryStatus = Some ''pending'',
                  statusHistory = [], updatedAt = t_save \<rparr>]\<rparr>,
            if fail_at = Some 3 then respond 500 False ''Failed to create order''
            else respond 201 True ''Order created successfully'')"
  using assms by (auto simp: orders_post_def Let_def)

text \<open>
  C8. POST /api/orders stores the supplied totalAmount as it is. Whenever the request names
  an existing user, a restaurant and at least one item, the items have a name and a price,
  the payment method is absent or one of cash, card, online, the order number and the new
  identifier are not taken, and the lookup, the count and the save do not fail, the Order is
  stored with exactly the supplied totalAmount, whatever that amount and whatever the items'
  prices and quantities are, and the answer is 201 (500 if only the read that fills in the
  response fails, the Order being stored all the same). Conversely every request answered
  201 has stored its totalAmount unchanged. No condition relates the amount to the items.
\<close>

theorem totalAmount_stored_verbatim:
  "(b_user body = Some usr \<and> b_restaurant body = Some rst
      \<and> b_items body = Some its \<and> its \<noteq> []
      \<and> findById u_id usr (users db) \<noteq> None
      \<and> cast_items its = Some cast
      \<and> or_cash (b_paymentMethod body) \<in> set [''cash'', ''card'', ''online'']
      \<and> (t_now, countDocuments (\<lambda>_. True) (orders db) + 1) \<notin> set (map orderNumber (orders db))
      \<and> new_id \<notin> set (map o_id (orders db))
      \<and> fail_at \<noteq> Some 0 \<and> fail_at \<noteq> Some 1 \<and> fail_at \<noteq> Some 2
      \<and> b_totalAmount body = Some x
     \<longrightarrow> code (snd (orders_post fail_at t_now t_save new_id body db))
           = (if fail_at = Some 3 then 500 else 201)
         \<and> (\<exists>doc. orders (fst (orders_post fail_at t_now t_save new_id body db)) = orders db @ [doc]
                \<and> findById o_id new_id
                     (orders (fst (orders_post fail_at t_now t_save new_id body db))) = Some doc
                \<and> totalAmount doc = x \<and> items doc = cast))
   \<and> (code (snd (orders_post fail_at t_now t_save new_id body db)) = 201
      \<and> b_totalAmount body = Some x
     \<longrightarrow> (\<exists>doc. orders (fst (orders_post fail_at t_now t_save new_id body db)) = orders db @ [doc]
                \<and> findById o_id new_id
                     (orders (fst (orders_post fail_at t_now t_save new_id body db))) = Some doc
                \<and> totalAmount doc = x))"
proof (intro conjI impI; (elim conjE)?)
  assume h: "b_user body = Some usr" "b_restaurant body = Some rst"
    "b_items body = Some its" "its \<noteq> []"
    "findById u_id usr (users db) \<noteq> None"
    "cast_items its = Some cast"
    "or_cash (b_paymentMethod body) \<in> set [''cash'', ''card'', ''online'']"
    "(t_now, countDocuments (\<lambda>_. True) (orders db) + 1) \<notin> set (map orderNumber (orders db))"
    "new_id \<notin> set (map o_id (orders db))"
    "fail_at \<noteq> Some 0" "fail_at \<noteq> Some 1" "fail_at \<noteq> Some 2"
    and x: "b_totalAmount body = Some x"
  note run = orders_post_accepted [OF h, of t_save]
  show "code (snd (orders_post fail_at t_now t_save new_id body db))
           = (if fail_at = Some 3 then 500 else 201)"
    by (simp add: run respond_def)
  let ?doc = "\<lparr> o_id = new_id, orderNumber = (t_now, countDocuments (\<lambda>_. True) (orders db) + 1),
                  o_user = Some usr, o_customer = None, o_restaurant = rst, o_driver = None,
                  items = cast, deliveryFee = or_zero (b_deliveryFee body),
                  subtotal = or_zero (b_subtotal body), tax = or_zero (b_tax body),
                  totalAmount = or_zero (b_totalAmount body),
                  paymentMethod = or_cash (b_paymentMethod body),
                  o_status = ''pending'', deliveryStatus = Some ''pending'',
                  statusHistory = [], updatedAt = t_save \<rparr>"
  have "findById o_id new_id (orders db @ [?doc]) = Some ?doc"
    using h(9) by (rule findById_append_new) simp
  moreover have "totalAmount ?doc = x"
    using x by (simp add: or_zero_def)
  ultimately show "\<exists>doc. orders (fst (orders_post fail_at t_now t_save new_id body db))
                      = orders db @ [doc]
                \<and> findById o_id new_id
                     (orders (fst (orders_post fail_at t_now t_save new_id body db))) = Some doc
                \<and> totalAmount doc = x \<and> items doc = cast"
    by (simp add: run)
next
  assume c: "code (snd (orders_post fail_at t_now t_save new_id body db)) = 201"
    and x: "b_totalAmount body = Some x"
  from orders_post_created [OF c] obtain doc where
    run: "fst (orders_post fail_at t_now t_save new_id body db) = db\<lparr>orders := orders db @ [doc]\<rparr>"
    and doc: "o_id doc = new_id" "totalAmount doc = or_zero (b_totalAmount body)"
    and fresh: "new_id \<notin> set (map o_id (orders db))"
    by fastforce
  have "findById o_id new_id (orders db @ [doc]) = Some doc"
    using fresh doc(1) by (rule findById_append_new)
  moreover have "totalAmount doc = x"
    using doc(2) x by (simp add: or_zero_def)
  ultimately show "\<exists>doc. orders (fst (orders_post fail_at t_now t_save new_id body db))
                      = orders db @ [doc]
                \<and> findById o_id new_id
                     (orders (fst (orders_post fail_at t_now t_save new_id body db))) = Some doc
                \<and> totalAmount doc = x"
    using run by simp
qed

theorem totalAmount_stored_verbatim_witness:
  "b_user ex_body = Some 1 \<and> b_restaurant ex_body = Some 5
   \<and> (\<exists>its cast. b_items ex_body = Some its \<and> its \<noteq> [] \<and> cast_items its = Some cast
         \<and> map it_price cast = [10, 10, 15] \<and> map it_quantity cast = [1, 2, 1])
   \<and> findById u_id 1 (users ex_db) \<noteq> None
   \<and> or_cash (b_paymentMethod ex_body) \<in> set [''cash'', ''card'', ''online'']
   \<and> (1000, countDocuments (\<lambda>_. True) (orders ex_db) + 1) \<notin> set (map orderNumber (orders ex_db))
   \<and> 11 \<notin> set (map o_id (orders ex_db))
   \<and> b_totalAmount ex_body = Some 50
   \<and> code (snd (orders_post None 1000 1001 11 ex_body ex_db)) = 201
   \<and> map totalAmount (orders (fst (orders_post None 1000 1001 11 ex_body ex_db))) = [30, 50]
   \<and> code (snd (orders_post (Some 3) 1000 1001 11 ex_body ex_db)) = 500
   \<and> map totalAmount (orders (fst (orders_post (Some 3) 1000 1001 11 ex_body ex_db))) = [30, 50]
   \<and> code (snd (orders_post None 1000 1001 11 (ex_body\<lparr>b_totalAmount := Some 7\<rparr>) ex_db)) = 201
   \<and> map totalAmount
         (orders (fst (orders_post None 1000 1001 11 (ex_body\<lparr>b_totalAmount := Some 7\<rparr>) ex_db)))
       = [30, 7]"
proof -
  let ?its = "[\<lparr> ib_menuItem = None, ib_name = Some ''Burger'', ib_price = Some 10,
                  ib_quantity = Some 1, ib_subtotal = None \<rparr>,
               \<lparr> ib_menuItem = None, ib_name = Some ''Pizza'', ib_price = Some 10,
                  ib_quantity = Some 2, ib_subtotal = None \<rparr>,
               \<lparr> ib_menuItem = None, ib_name = Some ''Salad'', ib_price = Some 15,
                  ib_quantity = None, ib_subtotal = None \<rparr>]"
  let ?cast = "[\<lparr> it_menuItem = None, it_name = ''Burger'', it_price = 10,
                   it_quantity = 1, it_subtotal = None \<rparr>,
                \<lparr> it_menuItem = None, it_name = ''Pizza'', it_price = 10,
                   it_quantity = 2, it_subtotal = None \<rparr>,
                \<lparr> it_menuItem = None, it_name = ''Salad'', it_price = 15,
                   it_quantity = 1, it_subtotal = None \<rparr>]"
  let ?body7 = "ex_body\<lparr>b_totalAmount := Some 7\<rparr>"
  have b1: "b_user ex_body = Some 1" and b2: "b_restaurant ex_body = Some 5"
    and b3: "b_items ex_body = Some ?its" and b4: "?its \<noteq> []"
    and b5: "or_cash (b_paymentMethod ex_body) \<in> set [''cash'', ''card'', ''online'']"
    and b6: "b_totalAmount ex_body = Some 50"
    by (simp_all add: ex_body_def or_cash_def)
  have c1: "b_user ?body7 = Some 1" and c2: "b_restaurant ?body7 = Some 5"
    and c3: "b_items ?body7 = Some ?its"
    and c5: "or_cash (b_paymentMethod ?body7) \<in> set [''cash'', ''card'', ''online'']"
    and c6: "b_totalAmount ?body7 = Some 7"
    by (simp_all add: ex_body_def or_cash_def)
  have k: "cast_items ?its = Some ?cast"
    by (simp add: cast_item_def)
  have u: "findById u_id 1 (users ex_db) \<noteq> None"
    by (simp add: findById_def ex_db_def)
  have n: "(1000, countDocuments (\<lambda>_. True) (orders ex_db) + 1) \<notin> set (map orderNumber (orders ex_db))"
    and i: "11 \<notin> set (map o_id (orders ex_db))"
    and e: "map totalAmount (orders ex_db) = [30]"
    by (simp_all add: countDocuments_def ex_db_def ex_order_def)
  have f: "None \<noteq> Some (0::nat)" "None \<noteq> Some (1::nat)" "None \<noteq> Some (2::nat)"
    "Some (3::nat) \<noteq> Some 0" "Some (3::nat) \<noteq> Some 1" "Some (3::nat) \<noteq> Some 2"
    by simp_all
  show ?thesis
    using b1 b2 b3 b4 b5 b6 c1 c2 c3 c5 c6 k u n i e
      totalAmount_stored_verbatim [where body = ex_body and usr = 1 and rst = 5 and its = ?its
        and db = ex_db and cast = ?cast and t_now = 1000 and new_id = 11 and fail_at = None
        and x = 50 and t_save = 1001]
      totalAmount_stored_verbatim [where body = ex_body and usr = 1 and rst = 5 and its = ?its
        and db = ex_db and cast = ?cast and t_now = 1000 and new_id = 11 and fail_at = "Some 3"
        and x = 50 and t_save = 1001]
      totalAmount_stored_verbatim [where body = ?body7 and usr = 1 and rst = 5 and its = ?its
        and db = ex_db and cast = ?cast and t_now = 1000 and new_id = 11 and fail_at = None
        and x = 7 and t_save = 1001]
    by auto
qed

lemma orders_post_orders:
  "orders (fst (orders_post fail_at t_now t_save new_id body db)) = orders db
   \<or> (\<exists>doc. orders (fst (orders_post fail_at t_now t_save new_id body db)) = orders db @ [doc]
          \<and> o_status doc = ''pending'' \<and> deliveryStatus doc = Some ''pending'')"
  by (simp add: orders_post_def Let_def split: option.splits)

lemma orders_put_status_orders:
  "orders (fst (orders_put_status fail_at t1 t2 oid status db)) = orders db
   \<or> (\<exists>s. orders (fst (orders_put_status fail_at t1 t2 oid status db)) =
            updateFirst (\<lambda>x. o_id x = oid)
              (\<lambda>x. x\<lparr>o_status := s, deliveryStatus := Some s, updatedAt := t1,
                     statusHistory := statusHistory x @ [(s, t2)]\<rparr>) (orders db))"
  by (cases status) (auto simp: orders_put_status_def Let_def split: option.splits)

lemma orders_assign_driver_orders:
  "orders (fst (orders_assign_driver fail_at t oid driverId db)) = orders db
   \<or> (\<exists>did. orders (fst (orders_assign_driver fail_at t oid driverId db)) =
            updateFirst (\<lambda>x. o_id x = oid)
              (\<lambda>x. x\<lparr>o_driver := Some did, o_status := ''assigned'',
                     deliveryStatus := Some ''assigned'', updatedAt := t\<rparr>) (orders db))"
  by (auto simp: orders_assign_driver_def Let_def split: option.splits)

text \<open>
  C10. In the orders routes whose Order schema has deliveryStatus, each write sets
  deliveryStatus to the value of status: a created Order has both pending, a status update
  sets both to the new status, a driver assignment sets both to assigned. So if every Order
  has status = deliveryStatus before one of these three requests, every Order has it after.
\<close>

theorem status_mirrored_by_order_writes:
  "(code (snd (orders_post f1 t_now t_save new_id body db)) = 201 \<longrightarrow>
      (\<exists>x. findById o_id new_id (orders (fst (orders_post f1 t_now t_save new_id body db))) = Some x
          \<and> o_status x = ''pending'' \<and> deliveryStatus x = Some ''pending''))
   \<and> (s \<in> set validStatusesA \<and> findById o_id oid (orders db) = Some ord \<and> f2 \<noteq> Some 0 \<longrightarrow>
      (\<exists>x. findById o_id oid (orders (fst (orders_put_status f2 t1 t2 oid (JStr s) db))) = Some x
          \<and> o_status x = s \<and> deliveryStatus x = Some s))
   \<and> (findById u_id did (users db) = Some drv \<and> userType drv = ''driver''
        \<and> findById o_id oid (orders db) = Some ord \<and> f3 \<noteq> Some 0 \<and> f3 \<noteq> Some 1 \<longrightarrow>
      (\<exists>x. findById o_id oid (orders (fst (orders_assign_driver f3 t oid (Some did) db))) = Some x
          \<and> o_status x = ''assigned'' \<and> deliveryStatus x = Some ''assigned''))
   \<and> (list_all status_mirrored (orders db) \<longrightarrow>
        list_all status_mirrored (orders (fst (orders_post f1 t_now t_save new_id body db)))
        \<and> list_all status_mirrored (orders (fst (orders_put_status f2 t1 t2 oid status db)))
        \<and> list_all status_mirrored (orders (fst (orders_assign_driver f3 t oid driverId db))))"
proof (intro conjI impI)
  assume c: "code (snd (orders_post f1 t_now t_save new_id body db)) = 201"
  from orders_post_created [OF c] obtain doc where
    run: "fst (orders_post f1 t_now t_save new_id body db) = db\<lparr>orders := orders db @ [doc]\<rparr>"
    and doc: "o_id doc = new_id" "o_status doc = ''pending''" "deliveryStatus doc = Some ''pending''"
    and fresh: "new_id \<notin> set (map o_id (orders db))"
    by fastforce
  have "findById o_id new_id (orders db @ [doc]) = Some doc"
    using fresh doc(1) by (rule findById_append_new)
  with run doc show "\<exists>x. findById o_id new_id
         (orders (fst (orders_post f1 t_now t_save new_id body db))) = Some x
          \<and> o_status x = ''pending'' \<and> deliveryStatus x = Some ''pending''"
    by simp
next
  assume h: "s \<in> set validStatusesA \<and> findById o_id oid (orders db) = Some ord \<and> f2 \<noteq> Some 0"
  then have a: "s \<in> set validStatusesA" and b: "findById o_id oid (orders db) = Some ord"
    and c: "f2 \<noteq> Some 0"
    by blast+
  have "findById o_id oid
          (updateFirst (\<lambda>x. o_id x = oid)
             (\<lambda>x. x\<lparr>o_status := s, deliveryStatus := Some s, updatedAt := t1,
                    statusHistory := statusHistory x @ [(s, t2)]\<rparr>) (orders db))
        = Some (ord\<lparr>o_status := s, deliveryStatus := Some s, updatedAt := t1,
                    statusHistory := statusHistory ord @ [(s, t2)]\<rparr>)"
    using b by (rule findById_updateFirst_order) simp
  then show "\<exists>x. findById o_id oid (orders (fst (orders_put_status f2 t1 t2 oid (JStr s) db))) = Some x
          \<and> o_status x = s \<and> deliveryStatus x = Some s"
    by (simp add: orders_put_status_ok [OF a b c])
next
  assume h: "findById u_id did (users db) = Some drv \<and> userType drv = ''driver''
        \<and> findById o_id oid (orders db) = Some ord \<and> f3 \<noteq> Some 0 \<and> f3 \<noteq> Some 1"
  then have a: "findById u_id did (users db) = Some drv" and b: "userType drv = ''driver''"
    and c: "findById o_id oid (orders db) = Some ord"
    and d: "f3 \<noteq> Some 0" and e: "f3 \<noteq> Some 1"
    by blast+
  have "findById o_id oid
       (updateFirst (\<lambda>x. o_id x = oid)
          (\<lambda>x. x\<lparr>o_driver := Some did, o_status := ''assigned'',
                 deliveryStatus := Some ''assigned'', updatedAt := t\<rparr>) (orders db))
       = Some (ord\<lparr>o_driver := Some did, o_status := ''assigned'',
                        deliveryStatus := Some ''assigned'', updatedAt := t\<rparr>)"
    using c by (rule findById_updateFirst_order) simp
  then show "\<exists>x. findById o_id oid (orders (fst (orders_assign_driver f3 t oid (Some did) db))) = Some x
          \<and> o_status x = ''assigned'' \<and> deliveryStatus x = Some ''assigned''"
    by (simp add: orders_assign_driver_ok [OF a b c d e])
next
  assume inv: "list_all status_mirrored (orders db)"
  show "list_all status_mirrored (orders (fst (orders_post f1 t_now t_save new_id body db)))"
    using orders_post_orders [of f1 t_now t_save new_id body db] inv
    by (auto simp: status_mirrored_def)
  show "list_all status_mirrored (orders (fst (orders_put_status f2 t1 t2 oid status db)))"
    using orders_put_status_orders [of f2 t1 t2 oid status db] inv
    by (auto intro!: list_all_updateFirst simp: status_mirrored_def)
  show "list_all status_mirrored (orders (fst (orders_assign_driver f3 t oid driverId db)))"
    using orders_assign_driver_orders [of f3 t oid driverId db] inv
    by (auto intro!: list_all_updateFirst simp: status_mirrored_def)
qed


theorem status_mirrored_by_order_writes_witness:
  "code (snd (orders_post None 1000 1001 11 ex_body ex_db)) = 201
   \<and> ''confirmed'' \<in> set validStatusesA
   \<and> findById o_id 10 (orders ex_db) = Some ex_order
   \<and> findById u_id 3 (users ex_db) = Some \<lparr> u_id = 3, userType = ''driver'' \<rparr>
   \<and> list_all status_mirrored (orders ex_db)
   \<and> (\<exists>x. findById o_id 11 (orders (fst (orders_post None 1000 1001 11 ex_body ex_db))) = Some x
          \<and> o_status x = ''pending'' \<and> deliveryStatus x = Some ''pending'')
   \<and> (\<exists>x. findById o_id 10 (orders (fst (orders_put_status None 77 78 10 (JStr ''confirmed'') ex_db)))
            = Some x
          \<and> o_status x = ''confirmed'' \<and> deliveryStatus x = Some ''confirmed'')
   \<and> (\<exists>x. findById o_id 10 (orders (fst (orders_assign_driver None 79 10 (Some 3) ex_db))) = Some x
          \<and> o_status x = ''assigned'' \<and> deliveryStatus x = Some ''assigned'')
   \<and> list_all status_mirrored (orders (fst (orders_post None 1000 1001 11 ex_body ex_db)))
   \<and> list_all status_mirrored (orders (fst (orders_put_status None 77 78 10 (JStr ''confirmed'') ex_db)))
   \<and> list_all status_mirrored (orders (fst (orders_assign_driver None 79 10 (Some 3) ex_db)))"
proof -
  have c: "code (snd (orders_post None 1000 1001 11 ex_body ex_db)) = 201"
    by (simp add: orders_post_def ex_body_def ex_db_def ex_order_def findById_def
          countDocuments_def cast_item_def or_zero_def or_cash_def Let_def respond_def)
  have v: "''confirmed'' \<in> set validStatusesA"
    by (simp add: validStatusesA_def)
  have o10: "findById o_id 10 (orders ex_db) = Some ex_order"
    by (simp add: findById_def ex_db_def ex_order_def)
  have u3: "findById u_id 3 (users ex_db) = Some \<lparr> u_id = 3, userType = ''driver'' \<rparr>"
    by (simp add: findById_def ex_db_def)
  have m: "list_all status_mirrored (orders ex_db)"
    by (simp add: status_mirrored_def ex_db_def ex_order_def)
  show ?thesis
    using c v o10 u3 m
      status_mirrored_by_order_writes [where ?f1.0 = None and t_now = 1000 and t_save = 1001
        and new_id = 11 and body = ex_body and db = ex_db and s = "''confirmed''" and oid = 10
        and ord = ex_order and ?f2.0 = None and ?t1.0 = 77 and ?t2.0 = 78 and did = 3
        and drv = "\<lparr> u_id = 3, userType = ''driver'' \<rparr>" and ?f3.0 = None and t = 79
        and status = "JStr ''confirmed''" and driverId = "Some 3"]
    by simp
qed

lemma customers_delete_blocked:
  assumes "findById u_id cid (users db) = Some c" and "userType c = ''customer''"
      and "\<exists>x\<in>set (orders db). o_customer x = Some cid
             \<and> o_status x \<in> {''pending'', ''confirmed'', ''picked_up'', ''in_transit''}"
  shows "fst (customers_delete fail_at cid db) = db
         \<and> \<not> success (snd (customers_delete fail_at cid db))
         \<and> code (snd (customers_delete None cid db)) = 400"
proof -
  have id: "u_id c = cid"
    using assms(1) by (simp add: findById_Some_id)
  have "countDocuments (\<lambda>x. o_customer x = Some cid
          \<and> o_status x \<in> set [''pending'', ''confirmed'', ''picked_up'', ''in_transit''])
          (orders db) > 0"
    unfolding countDocuments_pos using assms(3) by simp
  then show ?thesis
    using assms(1,2) id by (simp add: customers_delete_def Let_def respond_def)
qed

lemma customers_delete_free:
  assumes "findById u_id cid (users db) = Some c" and "userType c = ''customer''"
      and "\<not> (\<exists>x\<in>set (orders db). o_customer x = Some cid
             \<and> o_status x \<in> {''pending'', ''confirmed'', ''picked_up'', ''in_transit''})"
  shows "customers_delete None cid db =
           (db\<lparr>users := deleteFirst (\<lambda>u. u_id u = cid) (users db)\<rparr>,
            respond 200 True ''Customer deleted successfully'')"
proof -
  have id: "u_id c = cid"
    using assms(1) by (simp add: findById_Some_id)
  have "\<not> countDocuments (\<lambda>x. o_customer x = Some cid
          \<and> o_status x \<in> set [''pending'', ''confirmed'', ''picked_up'', ''in_transit''])
          (orders db) > 0"
    unfolding countDocuments_pos using assms(3) by simp
  then show ?thesis
    using assms(1,2) id by (simp add: customers_delete_def Let_def)
qed

lemma drivers_delete_blocked:
  assumes "findById u_id did (users db) = Some d" and "userType d = ''driver''"
      and "(\<exists>x\<in>set (deliveries db). d_driver x = did \<and> d_status x \<in> {''assigned'', ''ongoing''})
           \<or> (\<exists>x\<in>set (orders db). o_driver x = Some did
                 \<and> o_status x \<in> {''confirmed'', ''picked_up'', ''in_transit''})"
  shows "fst (drivers_delete fail_at did db) = db
         \<and> \<not> success (snd (drivers_delete fail_at did db))
         \<and> code (snd (drivers_delete None did db)) = 400"
proof -
  have id: "u_id d = did"
    using assms(1) by (simp add: findById_Some_id)
  have "countDocuments (\<lambda>x. d_driver x = did \<and> d_status x \<in> set [''assigned'', ''ongoing''])
          (deliveries db) > 0
        \<or> countDocuments (\<lambda>x. o_driver x = Some did
              \<and> o_status x \<in> set [''confirmed'', ''picked_up'', ''in_transit'']) (orders db) > 0"
    unfolding countDocuments_pos using assms(3) by simp
  then show ?thesis
    using assms(1,2) id by (auto simp: drivers_delete_def Let_def respond_def)
qed

lemma drivers_delete_free:
  assumes "findById u_id did (users db) = Some d" and "userType d = ''driver''"
      and "\<not> ((\<exists>x\<in>set (deliveries db). d_driver x = did \<and> d_status x \<in> {''assigned'', ''ongoing''})
           \<or> (\<exists>x\<in>set (orders db). o_driver x = Some did
                 \<and> o_status x \<in> {''confirmed'', ''picked_up'', ''in_transit''}))"
  shows "drivers_delete None did db =
           (db\<lparr>users := deleteFirst (\<lambda>u. u_id u = did) (users db)\<rparr>,
            respond 200 True ''Driver deleted successfully'')"
proof -
  have id: "u_id d = did"
    using assms(1) by (simp add: findById_Some_id)
  have "\<not> (countDocuments (\<lambda>x. d_driver x = did \<and> d_status x \<in> set [''assigned'', ''ongoing''])
          (deliveries db) > 0
        \<or> countDocuments (\<lambda>x. o_driver x = Some did
              \<and> o_status x \<in> set [''confirmed'', ''picked_up'', ''in_transit'']) (orders db) > 0)"
    unfolding countDocuments_pos using assms(3) by simp
  then show ?thesis
    using assms(1,2) id by (simp add: drivers_delete_def Let_def)
qed

lemma restaurants_delete_found:
  assumes "findById r_id rid (restaurants db) \<noteq> None"
  shows "restaurants_delete None rid db =
           (db\<lparr>restaurants := deleteFirst (\<lambda>r. r_id r = rid) (restaurants db)\<rparr>,
            respond 200 True ''Restaurant deleted successfully'')"
  using assms by (auto simp: restaurants_delete_def)

text \<open>
  C2 (as amended). With unique identifiers: DELETE of a customer Account is rejected (400,
  nothing deleted) if an Order whose customer is that Account has status pending, confirmed,
  picked_up or in_transit, and deletes the Account otherwise. DELETE of a driver Account is
  rejected if a Delivery of that driver has status assigned or ongoing or an Order of that
  driver has status confirmed, picked_up or in_transit, and deletes the Account otherwise.
  DELETE of a Restaurant looks at no Order and no Delivery: an existing Restaurant is
  deleted.
\<close>

theorem delete_guards:
  assumes "distinct (map u_id (users db))" and "distinct (map r_id (restaurants db))"
  shows
    "(findById u_id cid (users db) = Some c \<and> userType c = ''customer'' \<longrightarrow>
        ((\<exists>x\<in>set (orders db). o_customer x = Some cid
              \<and> o_status x \<in> {''pending'', ''confirmed'', ''picked_up'', ''in_transit''})
           \<longrightarrow> fst (customers_delete fail_at cid db) = db
               \<and> \<not> success (snd (customers_delete fail_at cid db))
               \<and> code (snd (customers_delete None cid db)) = 400)
        \<and> (\<not> (\<exists>x\<in>set (orders db). o_customer x = Some cid
              \<and> o_status x \<in> {''pending'', ''confirmed'', ''picked_up'', ''in_transit''})
           \<longrightarrow> findById u_id cid (users (fst (customers_delete None cid db))) = None
               \<and> code (snd (customers_delete None cid db)) = 200))
     \<and> (findById u_id did (users db) = Some d \<and> userType d = ''driver'' \<longrightarrow>
        ((\<exists>x\<in>set (deliveries db). d_driver x = did \<and> d_status x \<in> {''assigned'', ''ongoing''})
           \<or> (\<exists>x\<in>set (orders db). o_driver x = Some did
                 \<and> o_status x \<in> {''confirmed'', ''picked_up'', ''in_transit''})
           \<longrightarrow> fst (drivers_delete fail_at did db) = db
               \<and> \<not> success (snd (drivers_delete fail_at did db))
               \<and> code (snd (drivers_delete None did db)) = 400)
        \<and> (\<not> ((\<exists>x\<in>set (deliveries db). d_driver x = did \<and> d_status x \<in> {''assigned'', ''ongoing''})
           \<or> (\<exists>x\<in>set (orders db). o_driver x = Some did
                 \<and> o_status x \<in> {''confirmed'', ''picked_up'', ''in_transit''}))
           \<longrightarrow> findById u_id did (users (fst (drivers_delete None did db))) = None
               \<and> code (snd (drivers_delete None did db)) = 200))
     \<and> (findById r_id rid (restaurants db) \<noteq> None \<longrightarrow>
          findById r_id rid (restaurants (fst (restaurants_delete None rid db))) = None
          \<and> code (snd (restaurants_delete None rid db)) = 200)"
proof -
  have del_u: "\<And>k. findById u_id k (deleteFirst (\<lambda>u. u_id u = k) (users db)) = None"
    using assms(1) by (rule findById_deleteFirst)
  have del_r: "findById r_id rid (deleteFirst (\<lambda>r. r_id r = rid) (restaurants db)) = None"
    using assms(2) by (rule findById_deleteFirst)
  have cust: "findById u_id cid (users db) = Some c \<and> userType c = ''customer'' \<longrightarrow>
        ((\<exists>x\<in>set (orders db). o_customer x = Some cid
              \<and> o_status x \<in> {''pending'', ''confirmed'', ''picked_up'', ''in_transit''})
           \<longrightarrow> fst (customers_delete fail_at cid db) = db
               \<and> \<not> success (snd (customers_delete fail_at cid db))
               \<and> code (snd (customers_delete None cid db)) = 400)
        \<and> (\<not> (\<exists>x\<in>set (orders db). o_customer x = Some cid
              \<and> o_status x \<in> {''pending'', ''confirmed'', ''picked_up'', ''in_transit''})
           \<longrightarrow> findById u_id cid (users (fst (customers_delete None cid db))) = None
               \<and> code (snd (customers_delete None cid db)) = 200)"
  proof (intro impI conjI; (elim conjE)?)
    assume h: "findById u_id cid (users db) = Some c" "userType c = ''customer''"
      and a: "\<exists>x\<in>set (orders db). o_customer x = Some cid
              \<and> o_status x \<in> {''pending'', ''confirmed'', ''picked_up'', ''in_transit''}"
    note b = customers_delete_blocked [OF h a, of fail_at]
    from b show "fst (customers_delete fail_at cid db) = db" by blast
    from b show "\<not> success (snd (customers_delete fail_at cid db))" by blast
    from b show "code (snd (customers_delete None cid db)) = 400" by blast
  next
    assume h: "findById u_id cid (users db) = Some c" "userType c = ''customer''"
      and a: "\<not> (\<exists>x\<in>set (orders db). o_customer x = Some cid
              \<and> o_status x \<in> {''pending'', ''confirmed'', ''picked_up'', ''in_transit''})"
    note f = customers_delete_free [OF h a]
    show "findById u_id cid (users (fst (customers_delete None cid db))) = None"
      by (simp add: f del_u)
    show "code (snd (customers_delete None cid db)) = 200"
      by (simp add: f respond_def)
  qed
  have drv: "findById u_id did (users db) = Some d \<and> userType d = ''driver'' \<longrightarrow>
        ((\<exists>x\<in>set (deliveries db). d_driver x = did \<and> d_status x \<in> {''assigned'', ''ongoing''})
           \<or> (\<exists>x\<in>set (orders db). o_driver x = Some did
                 \<and> o_status x \<in> {''confirmed'', ''picked_up'', ''in_transit''})
           \<longrightarrow> fst (drivers_delete fail_at did db) = db
               \<and> \<not> success (snd (drivers_delete fail_at did db))
               \<and> code (snd (drivers_delete None did db)) = 400)
        \<and> (\<not> ((\<exists>x\<in>set (deliveries db). d_driver x = did \<and> d_status x \<in> {''assigned'', ''ongoing''})
           \<or> (\<exists>x\<in>set (orders db). o_driver x = Some did
                 \<and> o_status x \<in> {''confirmed'', ''picked_up'', ''in_transit''}))
           \<longrightarrow> findById u_id did (users (fst (drivers_delete None did db))) = None
               \<and> code (snd (drivers_delete None did db)) = 200)"
  proof (intro impI conjI; (elim conjE)?)
    assume h: "findById u_id did (users db) = Some d" "userType d = ''driver''"
      and a: "(\<exists>x\<in>set (deliveries db). d_driver x = did \<and> d_status x \<in> {''assigned'', ''ongoing''})
           \<or> (\<exists>x\<in>set (orders db). o_driver x = Some did
                 \<and> o_status x \<in> {''confirmed'', ''picked_up'', ''in_transit''})"
    note b = drivers_delete_blocked [OF h a, of fail_at]
    from b show "fst (drivers_delete fail_at did db) = db" by blast
    from b show "\<not> success (snd (drivers_delete fail_at did db))" by blast
    from b show "code (snd (drivers_delete None did db)) = 400" by blast
  next
    assume h: "findById u_id did (users db) = Some d" "userType d = ''driver''"
      and a: "\<not> ((\<exists>x\<in>set (deliveries db). d_driver x = did \<and> d_status x \<in> {''assigned'', ''ongoing''})
           \<or> (\<exists>x\<in>set (orders db). o_driver x = Some did
                 \<and> o_status x \<in> {''confirmed'', ''picked_up'', ''in_transit''}))"
    note f = drivers_delete_free [OF h a]
    show "findById u_id did (users (fst (drivers_delete None did db))) = None"
      by (simp add: f del_u)
    show "code (snd (drivers_delete None did db)) = 200"
      by (simp add: f respond_def)
  qed
  have rst: "findById r_id rid (restaurants db) \<noteq> None \<longrightarrow>
          findById r_id rid (restaurants (fst (restaurants_delete None rid db))) = None
          \<and> code (snd (restaurants_delete None rid db)) = 200"
    by (simp add: restaurants_delete_found del_r respond_def)
  from cust drv rst show ?thesis
    by blast
qed

theorem delete_guards_witness:
  "distinct (map u_id (users ex_db)) \<and> distinct (map r_id (restaurants ex_db))
   \<and> customers_delete None 1 ex_db
       = (ex_db, respond 400 False ''Cannot delete customer with active orders'')
   \<and> map u_id (users (fst (customers_delete None 4 ex_db))) = [1, 2, 3]
   \<and> findById u_id 4 (users (fst (customers_delete None 4 ex_db))) = None
   \<and> code (snd (customers_delete None 4 ex_db)) = 200
   \<and> drivers_delete None 2 ex_db
       = (ex_db, respond 400 False ''Cannot delete driver with active deliveries or orders'')
   \<and> findById u_id 3 (users (fst (drivers_delete None 3 ex_db))) = None
   \<and> code (snd (drivers_delete None 3 ex_db)) = 200
   \<and> findById r_id 5 (restaurants (fst (restaurants_delete None 5 ex_db))) = None
   \<and> code (snd (restaurants_delete None 5 ex_db)) = 200"
proof -
  have d1: "distinct (map u_id (users ex_db))" and d2: "distinct (map r_id (restaurants ex_db))"
    by (simp_all add: ex_db_def)
  have u4: "findById u_id 4 (users ex_db) = Some \<lparr> u_id = 4, userType = ''customer'' \<rparr>"
    and u3: "findById u_id 3 (users ex_db) = Some \<lparr> u_id = 3, userType = ''driver'' \<rparr>"
    and r5: "findById r_id 5 (restaurants ex_db) \<noteq> None"
    by (simp_all add: findById_def ex_db_def)
  have free4: "\<not> (\<exists>x\<in>set (orders ex_db). o_customer x = Some 4
              \<and> o_status x \<in> {''pending'', ''confirmed'', ''picked_up'', ''in_transit''})"
    by (simp add: ex_db_def ex_order_def)
  have free3: "\<not> ((\<exists>x\<in>set (deliveries ex_db). d_driver x = 3 \<and> d_status x \<in> {''assigned'', ''ongoing''})
           \<or> (\<exists>x\<in>set (orders ex_db). o_driver x = Some 3
                 \<and> o_status x \<in> {''confirmed'', ''picked_up'', ''in_transit''}))"
    by (simp add: ex_db_def ex_order_def ex_delivery_def)
  have c1: "customers_delete None 1 ex_db
       = (ex_db, respond 400 False ''Cannot delete customer with active orders'')"
    by (simp add: customers_delete_def findById_def countDocuments_def Let_def ex_db_def ex_order_def)
  have c4: "map u_id (users (fst (customers_delete None 4 ex_db))) = [1, 2, 3]"
    by (simp add: customers_delete_def findById_def countDocuments_def Let_def ex_db_def ex_order_def)
  have c2: "drivers_delete None 2 ex_db
       = (ex_db, respond 400 False ''Cannot delete driver with active deliveries or orders'')"
    by (simp add: drivers_delete_def findById_def countDocuments_def Let_def ex_db_def
          ex_order_def ex_delivery_def)
  show ?thesis
    using d1 d2 u4 u3 r5 free4 free3 c1 c4 c2
      delete_guards [OF d1 d2, where cid = 4 and c = "\<lparr> u_id = 4, userType = ''customer'' \<rparr>"
        and did = 3 and d = "\<lparr> u_id = 3, userType = ''driver'' \<rparr>" and rid = 5 and fail_at = None]
      delete_guards [OF d1 d2, where cid = 1 and c = "\<lparr> u_id = 1, userType = ''customer'' \<rparr>"
        and did = 2 and d = "\<lparr> u_id = 2, userType = ''driver'' \<rparr>" and rid = 5 and fail_at = None]
    by simp
qed

text \<open>
  C2 as stated fails for a Restaurant: restaurant 5 is deleted although an Order in status
  in_transit refers to it.
\<close>

theorem restaurant_deleted_despite_active_order:
  "map r_id (restaurants ex_db) = [5]
   \<and> map o_restaurant (orders ex_db) = [5]
   \<and> map o_status (orders ex_db) = [''in_transit'']
   \<and> restaurants (fst (restaurants_delete None 5 ex_db)) = []
   \<and> code (snd (restaurants_delete None 5 ex_db)) = 200"
  by (simp add: restaurants_delete_def findById_def respond_def ex_db_def ex_order_def)

subsection \<open>Double-precision arithmetic\<close>

lemma round_half_even_error: "\<bar>of_int (round_half_even x) - x\<bar> \<le> 1 / 2"
proof -
  have a: "of_int \<lfloor>x\<rfloor> \<le> x" and b: "x < of_int \<lfloor>x\<rfloor> + 1"
    by linarith+
  have key: "\<bar>of_int (if x - of_int f < 1 / 2 then f
                        else if x - of_int f > 1 / 2 then f + 1
                        else if even f then f else f + 1) - x\<bar> \<le> 1 / 2"
    if "of_int f \<le> x" and "x < of_int f + 1" for f :: int
    using that by (auto simp: abs_if)
  show ?thesis
    unfolding round_half_even_def Let_def by (rule key [OF a b])
qed

lemma binary_exponent_le:
  assumes "x \<noteq> 0"
  shows "2 powi (binary_exponent x) \<le> \<bar>x\<bar>"
proof -
  obtain a b where q: "quotient_of \<bar>x\<bar> = (a, b)"
    by (cases "quotient_of \<bar>x\<bar>")
  have bpos: "b > 0"
    using q by (rule quotient_of_denom_pos)
  have xab: "\<bar>x\<bar> = of_int a / of_int b"
    using q by (rule quotient_of_div)
  have "\<bar>x\<bar> > 0"
    using assms by simp
  with xab bpos have apos: "a > 0"
    by (simp add: zero_less_divide_iff)
  let ?e = "bitlen a - bitlen b"
  have la: "2 ^ nat (bitlen a - 1) \<le> a" and lb: "b < 2 ^ nat (bitlen b)"
    using bitlen_bounds [OF apos] bitlen_bounds [OF bpos] by simp_all
  have la1: "bitlen a \<ge> 1"
    using apos by (simp add: bitlen_alt_def)
  have lb0: "bitlen b \<ge> 0"
    by (rule bitlen_nonneg)
  have low: "(2::rat) powi (?e - 1) \<le> \<bar>x\<bar>"
  proof -
    have "(2::rat) powi (?e - 1) = 2 powi (bitlen a - 1) / 2 powi (bitlen b)"
      by (simp add: power_int_diff)
    also have "\<dots> = 2 ^ nat (bitlen a - 1) / 2 ^ nat (bitlen b)"
      using la1 lb0 by (simp add: power_int_def)
    also have "\<dots> \<le> of_int a / of_int b"
    proof (rule frac_le)
      show "(0::rat) \<le> of_int a" using apos by simp
      have "(of_int (2 ^ nat (bitlen a - 1)) :: rat) \<le> of_int a"
        using la by (simp only: of_int_le_iff)
      then show "(2::rat) ^ nat (bitlen a - 1) \<le> of_int a" by simp
      show "(0::rat) < of_int b" using bpos by simp
      have "(of_int b :: rat) \<le> of_int (2 ^ nat (bitlen b))"
        using lb by (simp only: of_int_le_iff)
      then show "(of_int b :: rat) \<le> 2 ^ nat (bitlen b)" by simp
    qed
    finally show ?thesis using xab by simp
  qed
  show ?thesis
    using low q by (simp add: binary_exponent_def Let_def)
qed

lemma to_double_error: "\<bar>to_double x - x\<bar> \<le> \<bar>x\<bar> / 2 ^ 53"
proof (cases "x = 0")
  case True
  then show ?thesis by (simp add: to_double_def)
next
  case False
  let ?E = "binary_exponent x"
  let ?k = "?E - 52"
  let ?m = "x / 2 powi ?k"
  have kpos: "(2::rat) powi ?k > 0"
    by (simp add: zero_less_power_int)
  have "to_double x - x = (of_int (round_half_even ?m) - ?m) * 2 powi ?k"
    using False kpos by (simp add: to_double_def Let_def algebra_simps)
  then have "\<bar>to_double x - x\<bar> = \<bar>of_int (round_half_even ?m) - ?m\<bar> * 2 powi ?k"
    using kpos by (simp add: abs_mult)
  also have "\<dots> \<le> (1 / 2) * 2 powi ?k"
    using round_half_even_error [of ?m] kpos by (intro mult_right_mono) simp_all
  also have "\<dots> = 2 powi ?E / 2 ^ 53"
  proof -
    have "(2::rat) powi ?k = 2 powi ?E / 2 powi 52"
      by (simp add: power_int_diff)
    then show ?thesis by simp
  qed
  also have "\<dots> \<le> \<bar>x\<bar> / 2 ^ 53"
    using binary_exponent_le [OF False] by (simp add: divide_right_mono)
  finally show ?thesis .
qed

lemma to_double_step:
  assumes "\<bar>y - x\<bar> \<le> \<bar>x\<bar> * a" and "0 \<le> a"
  shows "\<bar>to_double (y * k) - x * k\<bar> \<le> \<bar>x * k\<bar> * ((1 + a) * (1 + 1 / 2 ^ 53) - 1)"
proof -
  define u :: rat where "u = 1 / 2 ^ 53"
  have u0: "0 \<le> u"
    by (simp add: u_def)
  have "\<bar>y\<bar> \<le> \<bar>x\<bar> + \<bar>y - x\<bar>"
    by simp
  with assms(1) have y: "\<bar>y\<bar> \<le> \<bar>x\<bar> * (1 + a)"
    by (simp add: algebra_simps)
  have e1: "\<bar>to_double (y * k) - y * k\<bar> \<le> \<bar>y * k\<bar> * u"
    using to_double_error [of "y * k"] by (simp add: u_def)
  have "\<bar>y * k\<bar> = \<bar>y\<bar> * \<bar>k\<bar>"
    by (simp add: abs_mult)
  also have "\<dots> \<le> (\<bar>x\<bar> * (1 + a)) * \<bar>k\<bar>"
    using y by (intro mult_right_mono) simp_all
  finally have yk: "\<bar>y * k\<bar> \<le> \<bar>x\<bar> * (1 + a) * \<bar>k\<bar>" .
  have e2: "\<bar>y * k - x * k\<bar> \<le> \<bar>x\<bar> * a * \<bar>k\<bar>"
  proof -
    have "\<bar>y * k - x * k\<bar> = \<bar>y - x\<bar> * \<bar>k\<bar>"
      by (simp add: abs_mult left_diff_distrib [symmetric])
    also have "\<dots> \<le> (\<bar>x\<bar> * a) * \<bar>k\<bar>"
      using assms(1) by (intro mult_right_mono) simp_all
    finally show ?thesis .
  qed
  have "\<bar>to_double (y * k) - x * k\<bar>
          \<le> \<bar>to_double (y * k) - y * k\<bar> + \<bar>y * k - x * k\<bar>"
    by simp
  also have "\<dots> \<le> \<bar>y * k\<bar> * u + \<bar>x\<bar> * a * \<bar>k\<bar>"
    using e1 e2 by simp
  also have "\<dots> \<le> (\<bar>x\<bar> * (1 + a) * \<bar>k\<bar>) * u + \<bar>x\<bar> * a * \<bar>k\<bar>"
    using yk u0 by (simp add: mult_right_mono)
  also have "\<dots> = \<bar>x * k\<bar> * ((1 + a) * (1 + u) - 1)"
    by (simp add: abs_mult algebra_simps)
  finally show ?thesis
    by (simp add: u_def)
qed

lemma calculatePercentageChange_error:
  assumes "previous \<noteq> 0"
  shows "\<bar>calculatePercentageChange current previous - (current - previous) / previous * 100\<bar>
           \<le> \<bar>(current - previous) / previous * 100\<bar> * ((1 + 1 / 2 ^ 53) ^ 3 - 1)"
proof -
  define u :: rat where "u = 1 / 2 ^ 53"
  define d where "d = current - previous"
  define t1 where "t1 = to_double d"
  define t2 where "t2 = to_double (t1 / previous)"
  have u0: "0 \<le> u"
    by (simp add: u_def)
  have s1: "\<bar>t1 - d\<bar> \<le> \<bar>d\<bar> * u"
    using to_double_error [of d] by (simp add: t1_def u_def)
  have s2: "\<bar>t2 - d / previous\<bar> \<le> \<bar>d / previous\<bar> * ((1 + u) * (1 + u) - 1)"
    using to_double_step [OF s1 u0, of "1 / previous"] by (simp add: t2_def u_def)
  have a2: "0 \<le> (1 + u) * (1 + u) - 1"
    using u0 by (simp add: algebra_simps)
  have s3: "\<bar>to_double (t2 * 100) - d / previous * 100\<bar>
              \<le> \<bar>d / previous * 100\<bar> * ((1 + ((1 + u) * (1 + u) - 1)) * (1 + u) - 1)"
    using to_double_step [OF s2 a2, of 100] by (simp add: u_def)
  have "(1 + ((1 + u) * (1 + u) - 1)) * (1 + u) - 1 = (1 + u) ^ 3 - 1"
    by (simp add: power3_eq_cube)
  with s3 have "\<bar>to_double (t2 * 100) - d / previous * 100\<bar>
              \<le> \<bar>d / previous * 100\<bar> * ((1 + u) ^ 3 - 1)"
    by simp
  moreover have "calculatePercentageChange current previous = to_double (t2 * 100)"
    using assms by (simp add: calculatePercentageChange_def t2_def t1_def d_def)
  ultimately show ?thesis
    by (simp add: d_def u_def)
qed

lemma toFixed1_rounds:
  assumes "\<bar>x\<bar> < 10 ^ 21"
  shows "\<exists>n::int. 0 \<le> n \<and> \<bar>\<bar>x\<bar> - of_int n / 10\<bar> \<le> 1 / 20
           \<and> toFixed1 x = (if x < 0 then - to_double (of_int n / 10)
                           else to_double (of_int n / 10))"
proof -
  define n where "n = \<lfloor>\<bar>x\<bar> * 10 + 1 / 2\<rfloor>"
  have lo: "of_int n \<le> \<bar>x\<bar> * 10 + 1 / 2" and hi: "\<bar>x\<bar> * 10 + 1 / 2 < of_int n + 1"
    unfolding n_def by linarith+
  have "0 \<le> \<bar>x\<bar> * 10 + 1 / 2"
    by simp
  then have n0: "0 \<le> n"
    unfolding n_def by (simp only: zero_le_floor)
  have near: "\<bar>\<bar>x\<bar> - of_int n / 10\<bar> \<le> 1 / 20"
    using lo hi by (simp add: abs_if field_simps)
  have val: "toFixed1 x = (if x < 0 then - to_double (of_int n / 10)
                           else to_double (of_int n / 10))"
    using assms by (simp add: toFixed1_def n_def abs_if)
  from n0 near val show ?thesis
    by blast
qed

lemma calculatePercentageChange_counts_bound:
  fixes a b :: nat
  assumes "a < 2 ^ 53" and "b < 2 ^ 53"
  shows "\<bar>calculatePercentageChange (of_nat a) (of_nat b)\<bar> < 10 ^ 21"
proof (cases "b = 0")
  case True
  then show ?thesis
    by (simp add: calculatePercentageChange_def)
next
  case False
  let ?c = "calculatePercentageChange (of_nat a) (of_nat b)"
  let ?E = "(of_nat a - of_nat b) / of_nat b * 100 :: rat"
  have b1: "(1::rat) \<le> of_nat b"
    using False by (simp add: Suc_le_eq)
  have ra: "(of_nat a :: rat) < 2 ^ 53" and rb: "(of_nat b :: rat) < 2 ^ 53"
    using assms by (metis of_nat_less_iff of_nat_numeral of_nat_power)+
  have "\<bar>of_nat a - of_nat b :: rat\<bar> < 2 ^ 53"
    using ra rb by (simp add: abs_if)
  moreover have "\<bar>(of_nat a - of_nat b) / of_nat b :: rat\<bar> \<le> \<bar>of_nat a - of_nat b\<bar>"
    using b1 by (simp add: abs_divide divide_le_eq mult_le_cancel_left1)
  ultimately have q: "\<bar>(of_nat a - of_nat b) / of_nat b :: rat\<bar> < 2 ^ 53"
    by (rule le_less_trans [rotated])
  have E: "\<bar>?E\<bar> < 2 ^ 53 * 100"
  proof -
    define r :: rat where "r = (of_nat a - of_nat b) / of_nat b"
    have "\<bar>r * 100\<bar> = \<bar>r\<bar> * 100"
      by (simp add: abs_mult)
    moreover have "\<bar>r\<bar> < 2 ^ 53"
      using q by (simp add: r_def)
    ultimately have "\<bar>r * 100\<bar> < 2 ^ 53 * 100"
      by simp
    then show ?thesis
      by (simp only: r_def)
  qed
  define cc where "cc = ?c"
  define ee where "ee = ?E"
  have "\<bar>cc - ee\<bar> \<le> \<bar>ee\<bar> * ((1 + 1 / 2 ^ 53) ^ 3 - 1)"
    unfolding cc_def ee_def using False by (intro calculatePercentageChange_error) simp
  also have "\<dots> \<le> \<bar>ee\<bar> * 1"
  proof (intro mult_left_mono)
    have "(1 + 1 / 2 ^ 53 :: rat) ^ 3 \<le> (5 / 4) ^ 3"
      by (intro power_mono) simp_all
    also have "\<dots> \<le> 2"
      by (simp add: power3_eq_cube)
    finally show "(1 + 1 / 2 ^ 53 :: rat) ^ 3 - 1 \<le> 1"
      by simp
  qed simp
  finally have "\<bar>cc - ee\<bar> \<le> \<bar>ee\<bar>"
    by simp
  moreover have "\<bar>ee\<bar> < 2 ^ 53 * 100"
    using E by (simp only: ee_def)
  ultimately have "\<bar>cc\<bar> < 10 ^ 21"
    by (simp add: abs_if split: if_splits)
  then show ?thesis
    by (simp only: cc_def)
qed

subsection \<open>Dashboard and menu items\<close>

text \<open>
  C5. calculatePercentageChange gives 0 for (0, 0), 100 when the previous count is 0 and the
  current one is positive, and (current - previous) / previous * 100 in double arithmetic
  when the previous count is not 0: the three operations each round, so the result is within
  the relative error of three roundings of the exact quotient. It gives 0 for (0,0), 100 for
  (5,0), 50 for (15,10) and -50 for (5,10). The helper itself does not round to a decimal
  place: 103 against 80 gives the double 28.749999999999996. The rounding is applied where
  the stats response is assembled, each change being toFixed(1) of the helper's result: for
  counts below 2^53 that result is below 10^21 in magnitude, and there toFixed(1) gives the
  double nearest to n/10 for the integer n that has n/10 nearest to the magnitude of the
  result, with the result's sign; for 103 against 80 the response holds the double 28.7.
\<close>

theorem calculatePercentageChange_spec:
  "calculatePercentageChange 0 0 = 0
   \<and> (current > 0 \<longrightarrow> calculatePercentageChange current 0 = 100)
   \<and> (previous \<noteq> 0 \<longrightarrow>
        calculatePercentageChange current previous
          = to_double (to_double (to_double (current - previous) / previous) * 100)
        \<and> \<bar>calculatePercentageChange current previous - (current - previous) / previous * 100\<bar>
            \<le> \<bar>(current - previous) / previous * 100\<bar> * ((1 + 1 / 2 ^ 53) ^ 3 - 1))
   \<and> calculatePercentageChange 5 0 = 100
   \<and> calculatePercentageChange 15 10 = 50
   \<and> calculatePercentageChange 5 10 = - 50
   \<and> calculatePercentageChange 103 80 = 8092405580431359 / 281474976710656
   \<and> (\<bar>x\<bar> < 10 ^ 21 \<longrightarrow>
        (\<exists>n::int. 0 \<le> n \<and> \<bar>\<bar>x\<bar> - of_int n / 10\<bar> \<le> 1 / 20
           \<and> toFixed1 x = (if x < 0 then - to_double (of_int n / 10)
                           else to_double (of_int n / 10))))
   \<and> ((a::nat) < 2 ^ 53 \<and> (b::nat) < 2 ^ 53 \<longrightarrow>
        \<bar>calculatePercentageChange (of_nat a) (of_nat b)\<bar> < 10 ^ 21)
   \<and> activeDriversChange (dashboard_stats c) =
        toFixed1 (calculatePercentageChange (of_nat (c_activeDrivers c))
                    (of_nat (c_activeDriversLastWeek c)))
   \<and> activeOrdersChange (dashboard_stats c) =
        toFixed1 (calculatePercentageChange (of_nat (c_activeOrders c))
                    (of_nat (c_activeOrdersLastWeek c)))
   \<and> totalDeliveriesChange (dashboard_stats c) =
        toFixed1 (calculatePercentageChange (of_nat (c_totalDeliveries c))
                    (of_nat (c_totalDeliveriesLastWeek c)))
   \<and> ongoingDeliveriesChange (dashboard_stats c) =
        toFixed1 (calculatePercentageChange (of_nat (c_ongoingDeliveries c))
                    (of_nat (c_ongoingDeliveriesYesterday c)))
   \<and> toFixed1 (calculatePercentageChange 103 80) = 8078331831595827 / 281474976710656"
proof (intro conjI impI)
  show "calculatePercentageChange 0 0 = 0"
    by (simp add: calculatePercentageChange_def)
  show "calculatePercentageChange current 0 = 100" if "current > 0"
    using that by (simp add: calculatePercentageChange_def)
  show "calculatePercentageChange current previous
          = to_double (to_double (to_double (current - previous) / previous) * 100)"
    if "previous \<noteq> 0"
    using that by (simp add: calculatePercentageChange_def)
  show "\<bar>calculatePercentageChange current previous - (current - previous) / previous * 100\<bar>
            \<le> \<bar>(current - previous) / previous * 100\<bar> * ((1 + 1 / 2 ^ 53) ^ 3 - 1)"
    if "previous \<noteq> 0"
    using that by (rule calculatePercentageChange_error)
  show "calculatePercentageChange 5 0 = 100"
    by (simp add: calculatePercentageChange_def)
  show "calculatePercentageChange 15 10 = 50"
    by code_simp
  show "calculatePercentageChange 5 10 = - 50"
    by code_simp
  show "calculatePercentageChange 103 80 = 8092405580431359 / 281474976710656"
    by code_simp
  show "\<exists>n::int. 0 \<le> n \<and> \<bar>\<bar>x\<bar> - of_int n / 10\<bar> \<le> 1 / 20
           \<and> toFixed1 x = (if x < 0 then - to_double (of_int n / 10)
                           else to_double (of_int n / 10))"
    if "\<bar>x\<bar> < 10 ^ 21"
    using that by (rule toFixed1_rounds)
  show "\<bar>calculatePercentageChange (of_nat a) (of_nat b)\<bar> < 10 ^ 21"
    if "a < 2 ^ 53 \<and> b < 2 ^ 53"
    using that by (intro calculatePercentageChange_counts_bound) simp_all
  show "activeDriversChange (dashboard_stats c) =
        toFixed1 (calculatePercentageChange (of_nat (c_activeDrivers c))
                    (of_nat (c_activeDriversLastWeek c)))"
    by (simp add: dashboard_stats_def Let_def)
  show "activeOrdersChange (dashboard_stats c) =
        toFixed1 (calculatePercentageChange (of_nat (c_activeOrders c))
                    (of_nat (c_activeOrdersLastWeek c)))"
    by (simp add: dashboard_stats_def Let_def)
  show "totalDeliveriesChange (dashboard_stats c) =
        toFixed1 (calculatePercentageChange (of_nat (c_totalDeliveries c))
                    (of_nat (c_totalDeliveriesLastWeek c)))"
    by (simp add: dashboard_stats_def Let_def)
  show "ongoingDeliveriesChange (dashboard_stats c) =
        toFixed1 (calculatePercentageChange (of_nat (c_ongoingDeliveries c))
                    (of_nat (c_ongoingDeliveriesYesterday c)))"
    by (simp add: dashboard_stats_def Let_def)
  show "toFixed1 (calculatePercentageChange 103 80) = 8078331831595827 / 281474976710656"
    by code_simp
qed

theorem calculatePercentageChange_spec_witness:
  "(7::rat) > 0 \<and> (3::rat) \<noteq> 0 \<and> (103::nat) < 2 ^ 53 \<and> (80::nat) < 2 ^ 53
   \<and> calculatePercentageChange 7 0 = 100
   \<and> calculatePercentageChange 7 3 = to_double (to_double (to_double (7 - 3) / 3) * 100)
   \<and> \<bar>calculatePercentageChange 7 3 - (7 - 3) / 3 * 100\<bar>
        \<le> \<bar>(7 - 3) / 3 * 100 :: rat\<bar> * ((1 + 1 / 2 ^ 53) ^ 3 - 1)
   \<and> calculatePercentageChange 7 3 = 2345624805922133 / 17592186044416
   \<and> \<bar>calculatePercentageChange 103 80\<bar> < 10 ^ 21
   \<and> (\<exists>n::int. 0 \<le> n
         \<and> \<bar>\<bar>calculatePercentageChange 103 80\<bar> - of_int n / 10\<bar> \<le> 1 / 20
         \<and> toFixed1 (calculatePercentageChange 103 80)
             = (if calculatePercentageChange 103 80 < 0 then - to_double (of_int n / 10)
                else to_double (of_int n / 10)))
   \<and> calculatePercentageChange 103 80 = 8092405580431359 / 281474976710656
   \<and> to_double (287 / 10) = 8078331831595827 / 281474976710656
   \<and> activeDriversChange (dashboard_stats
        \<lparr> c_activeDrivers = 103, c_activeDriversLastWeek = 80,
          c_activeOrders = 0, c_activeOrdersLastWeek = 0,
          c_totalDeliveries = 5, c_totalDeliveriesLastWeek = 0,
          c_ongoingDeliveries = 5, c_ongoingDeliveriesYesterday = 10 \<rparr>)
       = 8078331831595827 / 281474976710656"
proof -
  let ?c = "\<lparr> c_activeDrivers = 103, c_activeDriversLastWeek = 80,
          c_activeOrders = 0, c_activeOrdersLastWeek = 0,
          c_totalDeliveries = 5, c_totalDeliveriesLastWeek = 0,
          c_ongoingDeliveries = 5, c_ongoingDeliveriesYesterday = 10 \<rparr>"
  note spec = calculatePercentageChange_spec [where current = 7 and previous = 3
      and x = "calculatePercentageChange 103 80" and a = 103 and b = 80 and c = ?c]
  have h: "(7::rat) > 0" "(3::rat) \<noteq> 0" "(103::nat) < 2 ^ 53" "(80::nat) < 2 ^ 53"
    by simp_all
  have v: "calculatePercentageChange 7 3 = 2345624805922133 / 17592186044416"
    by code_simp
  have w: "to_double (287 / 10) = 8078331831595827 / 281474976710656"
    by code_simp
  have a: "calculatePercentageChange 7 0 = 100"
    using spec h by blast
  have b: "calculatePercentageChange 7 3 = to_double (to_double (to_double (7 - 3) / 3) * 100)"
    using spec h by blast
  have e: "\<bar>calculatePercentageChange 7 3 - (7 - 3) / 3 * 100\<bar>
        \<le> \<bar>(7 - 3) / 3 * 100 :: rat\<bar> * ((1 + 1 / 2 ^ 53) ^ 3 - 1)"
    using spec h by blast
  have bound: "\<bar>calculatePercentageChange (of_nat 103) (of_nat 80)\<bar> < 10 ^ 21"
    using spec h by blast
  then have bound': "\<bar>calculatePercentageChange 103 80\<bar> < 10 ^ 21"
    by simp
  have r: "\<exists>n::int. 0 \<le> n
         \<and> \<bar>\<bar>calculatePercentageChange 103 80\<bar> - of_int n / 10\<bar> \<le> 1 / 20
         \<and> toFixed1 (calculatePercentageChange 103 80)
             = (if calculatePercentageChange 103 80 < 0 then - to_double (of_int n / 10)
                else to_double (of_int n / 10))"
    using spec bound' by blast
  have u: "calculatePercentageChange 103 80 = 8092405580431359 / 281474976710656"
    using spec by blast
  have t: "toFixed1 (calculatePercentageChange 103 80) = 8078331831595827 / 281474976710656"
    using spec by blast
  have "activeDriversChange (dashboard_stats ?c) =
        toFixed1 (calculatePercentageChange (of_nat (c_activeDrivers ?c))
                    (of_nat (c_activeDriversLastWeek ?c)))"
    using spec by blast
  then have f: "activeDriversChange (dashboard_stats ?c) = 8078331831595827 / 281474976710656"
    using t by simp
  from h a b e v bound' r u w f show ?thesis
    by blast
qed

text \<open>
  C9. On a save of a MenuItem that tracks stock: with currentStock 0 the pre-save hook marks
  the item out of stock and makes it unavailable; with currentStock above 0 it clears the
  out-of-stock mark and leaves isAvailable as it was. A save that succeeds stores the
  document the hook returns, and it succeeds whenever the stock numbers are not negative and
  nothing else fails; with a negative currentStock the validator rejects it and nothing is
  stored. No successful save and no successful updateStock turns isAvailable from false to
  true, so restocking does not make the item available again.
\<close>

theorem menuItem_stock_cascade_one_way:
  "(trackStock m \<and> currentStock m = 0 \<longrightarrow>
      isOutOfStock (menuItem_pre_save m) \<and> \<not> isAvailable (menuItem_pre_save m))
   \<and> (trackStock m \<and> currentStock m > 0 \<longrightarrow>
      \<not> isOutOfStock (menuItem_pre_save m)
      \<and> isAvailable (menuItem_pre_save m) = isAvailable m)
   \<and> (isAvailable (menuItem_pre_save m) \<longrightarrow> isAvailable m)
   \<and> (menuItem_save fault m = Inr m' \<longrightarrow>
        m' = menuItem_pre_save m \<and> (isAvailable m' \<longrightarrow> isAvailable m))
   \<and> (fault = NoFault \<and> currentStock m \<ge> 0 \<and> lowStockThreshold m \<ge> 0 \<longrightarrow>
        menuItem_save fault m = Inr (menuItem_pre_save m))
   \<and> (currentStock m < 0 \<longrightarrow> menuItem_save fault m = Inl ValidationError)
   \<and> (updateStock fault m quantity operation = Inr m' \<longrightarrow> (isAvailable m' \<longrightarrow> isAvailable m))"
proof (intro conjI impI)
  show "isOutOfStock (menuItem_pre_save m)" "\<not> isAvailable (menuItem_pre_save m)"
    if "trackStock m \<and> currentStock m = 0"
    using that by (simp_all add: menuItem_pre_save_def)
  show "\<not> isOutOfStock (menuItem_pre_save m)"
    "isAvailable (menuItem_pre_save m) = isAvailable m"
    if "trackStock m \<and> currentStock m > 0"
    using that by (simp_all add: menuItem_pre_save_def)
  show "isAvailable m" if "isAvailable (menuItem_pre_save m)"
    using that by (simp add: menuItem_pre_save_def split: if_splits)
  show "m' = menuItem_pre_save m" if "menuItem_save fault m = Inr m'"
    using that by (simp add: menuItem_save_def Let_def split: if_splits)
  show "isAvailable m" if "menuItem_save fault m = Inr m'" and "isAvailable m'"
    using that
    by (auto simp: menuItem_save_def menuItem_pre_save_def Let_def split: if_splits)
  show "menuItem_save fault m = Inr (menuItem_pre_save m)"
    if "fault = NoFault \<and> currentStock m \<ge> 0 \<and> lowStockThreshold m \<ge> 0"
    using that by (simp add: menuItem_save_def Let_def)
  show "menuItem_save fault m = Inl ValidationError" if "currentStock m < 0"
    using that by (simp add: menuItem_save_def)
  show "isAvailable m" if "updateStock fault m quantity operation = Inr m'" and "isAvailable m'"
    using that
    by (auto simp: updateStock_def menuItem_save_def menuItem_pre_save_def Let_def
          split: if_splits)
qed



theorem menuItem_stock_cascade_one_way_witness:
  "trackStock \<lparr> isAvailable = True, trackStock = True, currentStock = 0,
                lowStockThreshold = 5, isOutOfStock = False \<rparr>
   \<and> menuItem_save NoFault \<lparr> isAvailable = True, trackStock = True, currentStock = 0,
                lowStockThreshold = 5, isOutOfStock = False \<rparr>
       = Inr \<lparr> isAvailable = False, trackStock = True, currentStock = 0,
                lowStockThreshold = 5, isOutOfStock = True \<rparr>
   \<and> updateStock NoFault \<lparr> isAvailable = False, trackStock = True, currentStock = 0,
                lowStockThreshold = 5, isOutOfStock = True \<rparr> 8 ''add''
       = Inr \<lparr> isAvailable = False, trackStock = True, currentStock = 8,
                lowStockThreshold = 5, isOutOfStock = False \<rparr>
   \<and> menuItem_pre_save \<lparr> isAvailable = False, trackStock = True, currentStock = 8,
                lowStockThreshold = 5, isOutOfStock = True \<rparr>
       = \<lparr> isAvailable = False, trackStock = True, currentStock = 8,
                lowStockThreshold = 5, isOutOfStock = False \<rparr>
   \<and> updateStock NoFault \<lparr> isAvailable = True, trackStock = True, currentStock = 3,
                lowStockThreshold = 5, isOutOfStock = False \<rparr> (- 5) ''add''
       = Inl ValidationError
   \<and> updateStock NoFault \<lparr> isAvailable = True, trackStock = True, currentStock = 3,
                lowStockThreshold = 5, isOutOfStock = False \<rparr> 5 ''subtract''
       = Inr \<lparr> isAvailable = False, trackStock = True, currentStock = 0,
                lowStockThreshold = 5, isOutOfStock = True \<rparr>"
proof -
  let ?m0 = "\<lparr> isAvailable = True, trackStock = True, currentStock = 0,
                lowStockThreshold = 5, isOutOfStock = False \<rparr>"
  let ?m1 = "\<lparr> isAvailable = False, trackStock = True, currentStock = 0,
                lowStockThreshold = 5, isOutOfStock = True \<rparr>"
  let ?m8 = "\<lparr> isAvailable = False, trackStock = True, currentStock = 8,
                lowStockThreshold = 5, isOutOfStock = True \<rparr>"
  let ?m3 = "\<lparr> isAvailable = True, trackStock = True, currentStock = 3,
                lowStockThreshold = 5, isOutOfStock = False \<rparr>"
  let ?mneg = "\<lparr> isAvailable = True, trackStock = True, currentStock = - 2,
                lowStockThreshold = 5, isOutOfStock = False \<rparr>"
  have d8: "to_double 8 = 8"
    by code_simp
  have dm2: "to_double (- 2) = - 2"
    by code_simp
  have s0: "menuItem_save NoFault ?m0 = Inr ?m1"
    using menuItem_stock_cascade_one_way [where m = ?m0 and fault = NoFault and m' = ?m1
        and quantity = 8 and operation = "''add''"]
    by (simp add: menuItem_pre_save_def)
  have p8: "menuItem_pre_save ?m8 = ?m8\<lparr>isOutOfStock := False\<rparr>"
    using menuItem_stock_cascade_one_way [where m = ?m8 and fault = NoFault and m' = ?m1
        and quantity = 8 and operation = "''add''"]
    by (simp add: menuItem_pre_save_def)
  have neg: "menuItem_save NoFault ?mneg = Inl ValidationError"
    using menuItem_stock_cascade_one_way [where m = ?mneg and fault = NoFault and m' = ?m1
        and quantity = 8 and operation = "''add''"]
    by simp
  have u8: "updateStock NoFault ?m1 8 ''add'' = Inr (?m8\<lparr>isOutOfStock := False\<rparr>)"
    by (simp add: updateStock_def menuItem_save_def menuItem_pre_save_def Let_def d8)
  have uneg: "updateStock NoFault ?m3 (- 5) ''add'' = Inl ValidationError"
    using neg by (simp add: updateStock_def Let_def dm2 menuItem_save_def)
  have usub: "updateStock NoFault ?m3 5 ''subtract'' = Inr ?m1"
    by (simp add: updateStock_def menuItem_save_def menuItem_pre_save_def Let_def dm2)
  show ?thesis
    using s0 p8 u8 uneg usub by simp
qed

end
